theory Spec2Isabelle
  imports Complex_Main "HOL-Library.Word" "HOL-Library.Monad_Syntax"
begin

section \<open>The EGL desktop surface of the Looking Glass client\<close>

text \<open>
  A shallow embedding of \<^verbatim>\<open>client/renderers/EGL/desktop.c\<close>. The surface
  (\<^verbatim>\<open>struct EGL_Desktop\<close>) is a record; every function of the file takes the
  surface and returns the updated surface. The collaborators of the file (texture, shader,
  mesh, application, debug log) are not part of it: each call to one of them that acts is
  appended to the field \<open>calls\<close> of the surface, in program order, and each result a
  collaborator hands back is an argument of the function that asks for it. The pure
  queries are not recorded: \<^verbatim>\<open>egl_shaderGetUniform\<close> (its result is the location
  \<open>GL_LOC shader name\<close>), the reads of the configuration store, and the calls that lay
  out and label the configuration panel. A function that hands a \<^verbatim>\<open>NULL\<close>
  texture or a stale filter handle to the texture code does not return in C; in the
  model its value is \<open>None\<close>.

  C \<^verbatim>\<open>int\<close> fields that are only copied and compared are \<open>int\<close>; the
  night-vision counters, which are incremented, are 32-bit words read as signed.
  \<^verbatim>\<open>float\<close> values are \<open>real\<close>: rounding is not modelled.
\<close>

subsection \<open>Enumerations and constants of the headers\<close>

text \<open>
  Modelled from the spec: the scale algorithm numbers of \<^verbatim>\<open>desktop_rgb.def.h\<close>,
  a generated header that is not among the sources. The spec lists the algorithms as
  Auto, Nearest, Linear, validated to a fixed range; \<^verbatim>\<open>algorithmNames\<close> has
  exactly these three entries in an array of \<^verbatim>\<open>EGL_SCALE_MAX\<close> elements.
\<close>

definition EGL_SCALE_AUTO :: int where
  "EGL_SCALE_AUTO = 0"

definition EGL_SCALE_NEAREST :: int where
  "EGL_SCALE_NEAREST = 1"

definition EGL_SCALE_LINEAR :: int where
  "EGL_SCALE_LINEAR = 2"

definition EGL_SCALE_MAX :: int where
  "EGL_SCALE_MAX = 3"

datatype EGL_DesktopScaleType =
  EGL_DESKTOP_NOSCALE | EGL_DESKTOP_UPSCALE | EGL_DESKTOP_DOWNSCALE

datatype EGL_TexType = EGL_TEXTYPE_DMABUF | EGL_TEXTYPE_FRAMEBUFFER

datatype EGL_TexStatus =
  EGL_TEX_STATUS_OK | EGL_TEX_STATUS_NOTREADY | EGL_TEX_STATUS_ERROR

datatype EGL_PixelFormat = EGL_PF_BGRA | EGL_PF_RGBA | EGL_PF_RGBA10 | EGL_PF_RGBA16F

text \<open>
  The frame types \<^verbatim>\<open>egl_desktopSetup\<close> names, and \<open>FRAME_TYPE_OTHER n\<close> for
  every other value of the enumeration (the \<^verbatim>\<open>default\<close> branch of its switch).
\<close>

datatype FrameType =
  FRAME_TYPE_BGRA | FRAME_TYPE_RGBA | FRAME_TYPE_RGBA10 | FRAME_TYPE_RGBA16F
  | FRAME_TYPE_OTHER nat

text \<open>The fields of \<^verbatim>\<open>LG_RendererFormat\<close> that the file reads.\<close>

record LG_RendererFormat =
  f_type :: FrameType
  f_width :: int
  f_height :: int
  f_pitch :: int

text \<open>
  The rotation is passed on as it comes; a frame buffer is known to the file by its
  address only.
\<close>

type_synonym LG_RendererRotate = int

type_synonym FrameBuffer = nat

record FrameDamageRect =
  r_x :: int
  r_y :: int
  r_width :: int
  r_height :: int

text \<open>The four shader programs the surface owns, by the field that holds them.\<close>

datatype EGL_Shader = SHADER_desktop | SHADER_ffxFSR1_0 | SHADER_ffxFSR1_1 | SHADER_ffxCAS

text \<open>
  A uniform location is what \<^verbatim>\<open>egl_shaderGetUniform(shader, name)\<close> returned;
  \<open>GL_NONE\<close> is the zero of \<^verbatim>\<open>calloc\<close>.
\<close>

datatype GLint_loc = GL_NONE | GL_LOC EGL_Shader string

datatype EGL_UniformType =
  EGL_UNIFORM_TYPE_1I | EGL_UNIFORM_TYPE_2I | EGL_UNIFORM_TYPE_1F | EGL_UNIFORM_TYPE_2F
  | EGL_UNIFORM_TYPE_M3x2FV

text \<open>
  The payload of \<^verbatim>\<open>EGL_Uniform\<close> is a C union; the model records which member
  the code wrote: \<open>U_i\<close> the integers, \<open>U_f\<close> the floats, \<open>U_m\<close> the matrix
  buffer with its transpose flag.
\<close>

datatype EGL_UniformValue = U_i "int list" | U_f "real list" | U_m bool

record EGL_Uniform =
  u_type :: EGL_UniformType
  u_location :: GLint_loc
  u_value :: EGL_UniformValue

text \<open>
  \<^verbatim>\<open>u.f[0]\<close>, the first float of the payload. The two sharpness uniforms
  always hold floats; for another payload the model reads 0.
\<close>

definition uniform_f0 :: "EGL_Uniform \<Rightarrow> real" where
  "uniform_f0 u = (case u_value u of U_f (x # _) \<Rightarrow> x | _ \<Rightarrow> 0)"

definition set_f0 :: "real \<Rightarrow> EGL_Uniform \<Rightarrow> EGL_Uniform" where
  "set_f0 x u = u\<lparr>u_value := U_f [x]\<rparr>"

subsection \<open>The texture collaborator\<close>

text \<open>
  Modelled from the spec: the texture resource of \<^verbatim>\<open>texture.c\<close>, which is not
  among the sources. Section 6 of the spec gives its contract:
  \<^verbatim>\<open>init(kind) -> handle|fail\<close>, \<^verbatim>\<open>addFilter(program, initiallyEnabled) -> filterHandle\<close>,
  \<^verbatim>\<open>enableFilter(handle, bool)\<close>, \<^verbatim>\<open>setFilterResolution(handle, w, h)\<close>.
  A texture is its kind and its chain of filter stages in the order they were added; a
  stage holds its program, whether it is active now, and its resolution once one was set.
  A filter handle is the position of the stage in the chain of the texture that issued it;
  the surface resolves its handles against its current texture, and
  \<^verbatim>\<open>setupFilters\<close> assigns all three whenever a texture is created.
\<close>

record PostProcessFilter =
  flt_shader :: EGL_Shader
  flt_enabled :: bool
  flt_res :: "(int \<times> int) option"

record EGL_Texture =
  tex_type :: EGL_TexType
  tex_filters :: "PostProcessFilter list"

type_synonym PostProcessHandle = nat

text \<open>Every call the file makes to a collaborator, with its arguments.\<close>

datatype call =
    DEBUG_ERROR string
  | DEBUG_WARN string
  | Call_textureInit EGL_TexType bool
  | Call_textureFree
  | Call_textureSetup EGL_PixelFormat int int int
  | Call_textureUpdateFromDMA FrameBuffer int
  | Call_textureUpdateFromFrame FrameBuffer "FrameDamageRect list" int
  | Call_textureAddFilter EGL_Shader bool
  | Call_textureEnableFilter PostProcessHandle bool
  | Call_textureSetFilterRes PostProcessHandle int int
  | Call_textureInvalidate
  | Call_textureProcess
  | Call_textureBind
  | Call_textureGetFinalSize
  | Call_shaderInit EGL_Shader
  | Call_shaderCompile EGL_Shader
  | Call_shaderSetUniforms EGL_Shader "EGL_Uniform list"
  | Call_shaderUse EGL_Shader
  | Call_desktopRectsInit int
  | Call_desktopRectsMatrix int int real real real real LG_RendererRotate
  | Call_desktopRectsUpdate "FrameDamageRect list" int int
  | Call_desktopRectsRender
  | Call_countedBufferNew
  | Call_registerKeybind
  | Call_app_alert string "32 word list"
  | Call_app_invalidateWindow bool
  | Call_glBindTexture

subsection \<open>The surface\<close>

record DesktopShader =
  uTransform :: GLint_loc
  uDesktopSize :: GLint_loc
  uTextureSize :: GLint_loc
  uScaleAlgo :: GLint_loc
  uNVGain :: GLint_loc
  uCBMode :: GLint_loc

text \<open>
  \<^verbatim>\<open>struct EGL_Desktop\<close>. The pointers \<^verbatim>\<open>egl\<close>, \<^verbatim>\<open>display\<close>,
  \<^verbatim>\<open>mesh\<close>, \<^verbatim>\<open>matrix\<close> and the shader pointers are set once and name
  objects the file never inspects; they are left out (the shaders are the constants of
  \<^typ>\<open>EGL_Shader\<close>). \<open>texture = None\<close> is the \<^verbatim>\<open>NULL\<close> texture.
  \<open>ffxFSR1Handle\<close> is the array of two handles as a pair. \<open>calls\<close> is the record of
  the calls to collaborators made so far, oldest first.
\<close>

record EGL_Desktop =
  texture :: "EGL_Texture option"
  shader :: DesktopShader
  width :: int
  height :: int
  upscale :: bool
  scaleAlgo :: int
  nvMax :: "32 word"
  nvGain :: "32 word"
  cbMode :: int
  useDMA :: bool
  format :: LG_RendererFormat
  ffxFSR1Enable :: bool
  ffxFSR1Handle :: "PostProcessHandle \<times> PostProcessHandle"
  ffxFSR1Uniform :: EGL_Uniform
  ffxCASEnable :: bool
  ffxCASHandle :: PostProcessHandle
  ffxCASUniform :: EGL_Uniform
  calls :: "call list"

definition emit :: "call \<Rightarrow> EGL_Desktop \<Rightarrow> EGL_Desktop" where
  "emit c d = d\<lparr>calls := calls d @ [c]\<rparr>"

text \<open>
  The texture functions as the surface calls them, on \<^verbatim>\<open>desktop->texture\<close>.
  Each needs a texture, and a handle must name a stage of it.
\<close>

definition egl_textureAddFilter ::
  "EGL_Shader \<Rightarrow> bool \<Rightarrow> EGL_Desktop \<Rightarrow> (PostProcessHandle \<times> EGL_Desktop) option" where
  "egl_textureAddFilter sh en d =
     (case texture d of
        None \<Rightarrow> None
      | Some t \<Rightarrow>
          Some (length (tex_filters t),
            emit (Call_textureAddFilter sh en)
              (d\<lparr>texture := Some (t\<lparr>tex_filters := tex_filters t @
                 [\<lparr>flt_shader = sh, flt_enabled = en, flt_res = None\<rparr>]\<rparr>)\<rparr>)))"

definition egl_textureEnableFilter ::
  "PostProcessHandle \<Rightarrow> bool \<Rightarrow> EGL_Desktop \<Rightarrow> EGL_Desktop option" where
  "egl_textureEnableFilter h en d =
     (case texture d of
        None \<Rightarrow> None
      | Some t \<Rightarrow>
          if h < length (tex_filters t) then
            Some (emit (Call_textureEnableFilter h en)
              (d\<lparr>texture := Some (t\<lparr>tex_filters :=
                 (tex_filters t)[h := (tex_filters t ! h)\<lparr>flt_enabled := en\<rparr>]\<rparr>)\<rparr>))
          else None)"

definition egl_textureSetFilterRes ::
  "PostProcessHandle \<Rightarrow> int \<Rightarrow> int \<Rightarrow> EGL_Desktop \<Rightarrow> EGL_Desktop option" where
  "egl_textureSetFilterRes h w ht d =
     (case texture d of
        None \<Rightarrow> None
      | Some t \<Rightarrow>
          if h < length (tex_filters t) then
            Some (emit (Call_textureSetFilterRes h w ht)
              (d\<lparr>texture := Some (t\<lparr>tex_filters :=
                 (tex_filters t)[h := (tex_filters t ! h)\<lparr>flt_res := Some (w, ht)\<rparr>]\<rparr>)\<rparr>))
          else None)"

definition with_texture :: "call \<Rightarrow> EGL_Desktop \<Rightarrow> EGL_Desktop option" where
  "with_texture c d = (case texture d of None \<Rightarrow> None | Some t \<Rightarrow> Some (emit c d))"

text \<open>
  \<^verbatim>\<open>egl_textureInit(egl, &desktop->texture, display, type, true)\<close>: \<open>ok\<close> is
  whether the collaborator succeeds. A new texture has no filter stage; after a failure
  there is no texture.
\<close>

definition egl_textureInit :: "bool \<Rightarrow> EGL_TexType \<Rightarrow> EGL_Desktop \<Rightarrow> EGL_Desktop" where
  "egl_textureInit ok ty d =
     emit (Call_textureInit ty True)
       (d\<lparr>texture := (if ok then Some \<lparr>tex_type = ty, tex_filters = []\<rparr> else None)\<rparr>)"

definition egl_textureFree :: "EGL_Desktop \<Rightarrow> EGL_Desktop" where
  "egl_textureFree d = emit Call_textureFree (d\<lparr>texture := None\<rparr>)"

subsection \<open>Attaching the filter stages\<close>

text \<open>
  \<^verbatim>\<open>setupFilters\<close>: the two passes of the FSR resampler, then the CAS sharpener,
  each added with the user's enable flag as its initial state.
\<close>

definition setupFilters :: "EGL_Desktop \<Rightarrow> EGL_Desktop option" where
  "setupFilters d0 = do {
     (h0, d) \<leftarrow> egl_textureAddFilter SHADER_ffxFSR1_0 (ffxFSR1Enable d0) d0;
     let d = d\<lparr>ffxFSR1Handle := (h0, snd (ffxFSR1Handle d))\<rparr>;
     (h1, d) \<leftarrow> egl_textureAddFilter SHADER_ffxFSR1_1 (ffxFSR1Enable d) d;
     let d = d\<lparr>ffxFSR1Handle := (fst (ffxFSR1Handle d), h1)\<rparr>;
     (h2, d) \<leftarrow> egl_textureAddFilter SHADER_ffxCAS (ffxCASEnable d) d;
     Some (d\<lparr>ffxCASHandle := h2\<rparr>)
   }"

subsection \<open>Construction\<close>

text \<open>
  What the collaborators answer during \<^verbatim>\<open>egl_desktopInit\<close>: whether each
  allocation and build step succeeds, and the values of the configuration store.
\<close>

record init_env =
  calloc_ok :: bool
  textureInit_ok :: bool
  shaderInit_ok :: bool
  shaderCompile_ok :: bool
  desktopRectsInit_ok :: bool
  countedBufferNew_ok :: bool
  opt_egl_nvGainMax :: "32 word"
  opt_egl_nvGain :: "32 word"
  opt_egl_cbMode :: int
  opt_egl_scale :: int
  opt_eglFilter_ffxFSR :: bool
  opt_eglFilter_ffxFSRSharpness :: real
  opt_eglFilter_ffxCAS :: bool
  opt_eglFilter_ffxCASSharpness :: real

text \<open>
  The surface as \<^verbatim>\<open>calloc\<close> returns it: every field zero. The zero frame type
  is none of the four supported ones; which uniform type is zero is not visible in the
  sources, and both uniforms are overwritten before they are read.
\<close>

definition calloc_EGL_Desktop :: EGL_Desktop where
  "calloc_EGL_Desktop =
     \<lparr>texture = None,
      shader = \<lparr>uTransform = GL_NONE, uDesktopSize = GL_NONE, uTextureSize = GL_NONE,
                uScaleAlgo = GL_NONE, uNVGain = GL_NONE, uCBMode = GL_NONE\<rparr>,
      width = 0, height = 0, upscale = False, scaleAlgo = 0, nvMax = 0, nvGain = 0,
      cbMode = 0, useDMA = False,
      format = \<lparr>f_type = FRAME_TYPE_OTHER 0, f_width = 0, f_height = 0, f_pitch = 0\<rparr>,
      ffxFSR1Enable = False, ffxFSR1Handle = (0, 0),
      ffxFSR1Uniform = \<lparr>u_type = EGL_UNIFORM_TYPE_1I, u_location = GL_NONE, u_value = U_f [0]\<rparr>,
      ffxCASEnable = False, ffxCASHandle = 0,
      ffxCASUniform = \<lparr>u_type = EGL_UNIFORM_TYPE_1I, u_location = GL_NONE, u_value = U_f [0]\<rparr>,
      calls = []\<rparr>"

text \<open>
  \<^verbatim>\<open>egl_initDesktopShader\<close> on \<^verbatim>\<open>desktop->shader\<close>: the result and the
  surface.
\<close>

definition egl_initDesktopShader :: "init_env \<Rightarrow> EGL_Desktop \<Rightarrow> bool \<times> EGL_Desktop" where
  "egl_initDesktopShader env d0 =
     (let d = emit (Call_shaderInit SHADER_desktop) d0 in
      if \<not> shaderInit_ok env then (False, d)
      else
        let d = emit (Call_shaderCompile SHADER_desktop) d in
        if \<not> shaderCompile_ok env then (False, d)
        else
          (True, d\<lparr>shader :=
             \<lparr>uTransform = GL_LOC SHADER_desktop ''transform'',
              uDesktopSize = GL_LOC SHADER_desktop ''desktopSize'',
              uTextureSize = GL_LOC SHADER_desktop ''textureSize'',
              uScaleAlgo = GL_LOC SHADER_desktop ''scaleAlgo'',
              uNVGain = GL_LOC SHADER_desktop ''nvGain'',
              uCBMode = GL_LOC SHADER_desktop ''cbMode''\<rparr>\<rparr>))"

text \<open>
  \<^verbatim>\<open>egl_desktopInit\<close>. The result is the returned flag and the surface stored in
  \<^verbatim>\<open>*desktop_\<close>, which stays unset when \<^verbatim>\<open>calloc\<close> fails.
\<close>

definition egl_desktopInit ::
  "init_env \<Rightarrow> bool \<Rightarrow> int \<Rightarrow> (bool \<times> EGL_Desktop option) option" where
  "egl_desktopInit env useDMA_arg maxRects =
     (if \<not> calloc_ok env then Some (False, None)
      else
        let d = calloc_EGL_Desktop;
            d = egl_textureInit (textureInit_ok env)
                  (if useDMA_arg then EGL_TEXTYPE_DMABUF else EGL_TEXTYPE_FRAMEBUFFER) d
        in
        if \<not> textureInit_ok env then
          Some (False, Some (emit (DEBUG_ERROR ''Failed to initialize the desktop texture'') d))
        else
          let (ok, d) = egl_initDesktopShader env d in
          if \<not> ok then
            Some (False,
              Some (emit (DEBUG_ERROR ''Failed to initialize the generic desktop shader'') d))
          else
            let d = emit (Call_desktopRectsInit maxRects) d in
            if \<not> desktopRectsInit_ok env then
              Some (False, Some (emit (DEBUG_ERROR ''Failed to initialize the desktop mesh'') d))
            else
              let d = emit Call_countedBufferNew d in
              if \<not> countedBufferNew_ok env then
                Some (False,
                  Some (emit (DEBUG_ERROR ''Failed to allocate the desktop matrix buffer'') d))
              else do {
                let d = emit Call_registerKeybind d;
                let d = d\<lparr>nvMax := opt_egl_nvGainMax env, nvGain := opt_egl_nvGain env,
                          cbMode := opt_egl_cbMode env, scaleAlgo := opt_egl_scale env,
                          useDMA := useDMA_arg\<rparr>;
                let d = emit (Call_shaderInit SHADER_ffxFSR1_0) d;
                let d = emit (Call_shaderCompile SHADER_ffxFSR1_0) d;
                let d = emit (Call_shaderInit SHADER_ffxFSR1_1) d;
                let d = emit (Call_shaderCompile SHADER_ffxFSR1_1) d;
                let d = d\<lparr>ffxFSR1Enable := opt_eglFilter_ffxFSR env\<rparr>;
                let d = d\<lparr>ffxFSR1Uniform :=
                          \<lparr>u_type = EGL_UNIFORM_TYPE_1F,
                           u_location = GL_LOC SHADER_ffxFSR1_1 ''uSharpness'',
                           u_value = U_f [opt_eglFilter_ffxFSRSharpness env]\<rparr>\<rparr>;
                let d = emit (Call_shaderSetUniforms SHADER_ffxFSR1_1 [ffxFSR1Uniform d]) d;
                let d = emit (Call_shaderInit SHADER_ffxCAS) d;
                let d = emit (Call_shaderCompile SHADER_ffxCAS) d;
                let d = d\<lparr>ffxCASEnable := opt_eglFilter_ffxCAS env\<rparr>;
                let d = d\<lparr>ffxCASUniform :=
                          \<lparr>u_type = EGL_UNIFORM_TYPE_1F,
                           u_location = GL_LOC SHADER_ffxCAS ''uSharpness'',
                           u_value = U_f [opt_eglFilter_ffxCASSharpness env]\<rparr>\<rparr>;
                let d = emit (Call_shaderSetUniforms SHADER_ffxCAS [ffxCASUniform d]) d;
                d \<leftarrow> setupFilters d;
                Some (True, Some d)
              })"

subsection \<open>Night vision\<close>

text \<open>
  \<^verbatim>\<open>toggleNV\<close>: the post-increment compares the old gain with the maximum; the
  increment wraps as a 32-bit word. The alert carries its format string and argument.
\<close>

definition toggleNV :: "int \<Rightarrow> EGL_Desktop \<Rightarrow> EGL_Desktop" where
  "toggleNV key d0 =
     (let old = nvGain d0;
          d = d0\<lparr>nvGain := old + 1\<rparr>;
          d = (if old = nvMax d then d\<lparr>nvGain := 0\<rparr> else d);
          d = (if nvGain d = 0 then emit (Call_app_alert ''NV Disabled'' []) d
               else if nvGain d = 1 then emit (Call_app_alert ''NV Enabled'' []) d
               else emit (Call_app_alert ''NV Gain + %d'' [nvGain d - 1]) d)
      in emit (Call_app_invalidateWindow True) d)"

subsection \<open>Validation of the configured scale algorithm\<close>

text \<open>The integer option the validator is handed (\<^verbatim>\<open>opt->value.x_int\<close>).\<close>

record config_Option =
  x_int :: int

text \<open>
  \<^verbatim>\<open>egl_desktopScaleValidate\<close>: the returned flag and the content of
  \<^verbatim>\<open>*error\<close> afterwards (\<open>err\<close> is its content before).
\<close>

definition egl_desktopScaleValidate ::
  "config_Option \<Rightarrow> string option \<Rightarrow> bool \<times> string option" where
  "egl_desktopScaleValidate opt err =
     (if x_int opt \<ge> 0 \<and> x_int opt < EGL_SCALE_MAX then (True, err)
      else (False, Some ''Invalid scale algorithm number''))"

text \<open>
  Modelled from the spec: the configuration store of \<^verbatim>\<open>common/option.c\<close>, which
  is not among the sources. Sections 6 and 7 of the spec: a value offered for a
  range-checked option goes through the option's validation hook; an out-of-range value
  is rejected with a descriptive error and the prior value is retained.
\<close>

definition option_store_int ::
  "(config_Option \<Rightarrow> string option \<Rightarrow> bool \<times> string option) \<Rightarrow>
   config_Option \<Rightarrow> int \<Rightarrow> config_Option \<times> string option" where
  "option_store_int validator opt v =
     (case validator (opt\<lparr>x_int := v\<rparr>) None of
        (True, _) \<Rightarrow> (opt\<lparr>x_int := v\<rparr>, None)
      | (False, e) \<Rightarrow> (opt, e))"

subsection \<open>The configuration panel\<close>

text \<open>
  What the panel's widgets hand back in one pass of \<^verbatim>\<open>egl_desktopConfigUI\<close>:
  whether the combo box is open and which of its entries was clicked, and the value each
  slider and checkbox leaves in its variable (the value it was given when the user did
  not touch it). The calls that only lay out and label the panel are not modelled.
\<close>

record ui_input =
  ui_comboOpen :: bool
  ui_selectable :: "int \<Rightarrow> bool"
  ui_nvgain :: "32 word"
  ui_fsr1 :: bool
  ui_fsr1Sharpness :: real
  ui_cas :: bool
  ui_casSharpness :: real

text \<open>Lines 309 to 344: the FSR checkbox and its sharpness slider.\<close>

definition configUI_fsr1 :: "ui_input \<Rightarrow> EGL_Desktop \<times> bool \<Rightarrow> (EGL_Desktop \<times> bool) option" where
  "configUI_fsr1 ui = (\<lambda>(d0, invalidateTex0). do {
     let fsr1 = ui_fsr1 ui;
     (d, invalidateTex) \<leftarrow>
       (if fsr1 \<noteq> ffxFSR1Enable d0 then do {
          let d = d0\<lparr>ffxFSR1Enable := fsr1\<rparr>;
          d \<leftarrow> egl_textureEnableFilter (fst (ffxFSR1Handle d)) (fsr1 \<and> upscale d) d;
          d \<leftarrow> egl_textureEnableFilter (snd (ffxFSR1Handle d)) (fsr1 \<and> upscale d) d;
          Some (d, True)
        } else Some (d0, invalidateTex0));
     let fsr1Sharpness = ui_fsr1Sharpness ui;
     if fsr1Sharpness \<noteq> uniform_f0 (ffxFSR1Uniform d) then do {
       d \<leftarrow>
         (if \<not> fsr1 then do {
            let d = d\<lparr>ffxFSR1Enable := True\<rparr>;
            d \<leftarrow> egl_textureEnableFilter (fst (ffxFSR1Handle d)) (True \<and> upscale d) d;
            egl_textureEnableFilter (snd (ffxFSR1Handle d)) (True \<and> upscale d) d
          } else Some d);
       let d = d\<lparr>ffxFSR1Uniform := set_f0 (2 - fsr1Sharpness * 2) (ffxFSR1Uniform d)\<rparr>;
       let d = emit (Call_shaderSetUniforms SHADER_ffxFSR1_1 [ffxFSR1Uniform d]) d;
       Some (d, True)
     } else Some (d, invalidateTex)
   })"

text \<open>Lines 347 to 376: the CAS checkbox and its sharpness slider.\<close>

definition configUI_cas :: "ui_input \<Rightarrow> EGL_Desktop \<times> bool \<Rightarrow> (EGL_Desktop \<times> bool) option" where
  "configUI_cas ui = (\<lambda>(d0, invalidateTex0). do {
     let cas = ui_cas ui;
     (d, invalidateTex) \<leftarrow>
       (if cas \<noteq> ffxCASEnable d0 then do {
          let d = d0\<lparr>ffxCASEnable := cas\<rparr>;
          d \<leftarrow> egl_textureEnableFilter (ffxCASHandle d) cas d;
          Some (d, True)
        } else Some (d0, invalidateTex0));
     let casSharpness = ui_casSharpness ui;
     if casSharpness \<noteq> uniform_f0 (ffxCASUniform d) then do {
       d \<leftarrow>
         (if \<not> cas then do {
            let d = d\<lparr>ffxCASEnable := True\<rparr>;
            egl_textureEnableFilter (ffxCASHandle d) True d
          } else Some d);
       let d = d\<lparr>ffxCASUniform := set_f0 casSharpness (ffxCASUniform d)\<rparr>;
       let d = emit (Call_shaderSetUniforms SHADER_ffxCAS [ffxCASUniform d]) d;
       Some (d, True)
     } else Some (d, invalidateTex)
   })"

text \<open>
  \<^verbatim>\<open>egl_desktopConfigUI\<close>: the scale combo (every clicked entry is stored, in
  index order), the night-vision slider, the two filter sections, and the invalidation
  when either section changed something.
\<close>

definition egl_desktopConfigUI :: "ui_input \<Rightarrow> EGL_Desktop \<Rightarrow> EGL_Desktop option" where
  "egl_desktopConfigUI ui d0 = do {
     let d = (if ui_comboOpen ui
              then foldl (\<lambda>d i. if ui_selectable ui i then d\<lparr>scaleAlgo := i\<rparr> else d) d0
                     [0 .. EGL_SCALE_MAX - 1]
              else d0);
     let d = d\<lparr>nvGain := ui_nvgain ui\<rparr>;
     (d, invalidateTex) \<leftarrow> configUI_fsr1 ui (d, False);
     (d, invalidateTex) \<leftarrow> configUI_cas ui (d, invalidateTex);
     if invalidateTex then do {
       d \<leftarrow> with_texture Call_textureInvalidate d;
       Some (emit (Call_app_invalidateWindow True) d)
     } else Some d
   }"

subsection \<open>Format setup, frame update, resize\<close>

text \<open>
  The switch of \<^verbatim>\<open>egl_desktopSetup\<close> (lines 389 to 411): the pixel format of
  a frame type, \<open>None\<close> in the \<^verbatim>\<open>default\<close> branch.
\<close>

fun pixFmt_of_type :: "FrameType \<Rightarrow> EGL_PixelFormat option" where
  "pixFmt_of_type FRAME_TYPE_BGRA = Some EGL_PF_BGRA"
| "pixFmt_of_type FRAME_TYPE_RGBA = Some EGL_PF_RGBA"
| "pixFmt_of_type FRAME_TYPE_RGBA10 = Some EGL_PF_RGBA10"
| "pixFmt_of_type FRAME_TYPE_RGBA16F = Some EGL_PF_RGBA16F"
| "pixFmt_of_type (FRAME_TYPE_OTHER n) = None"

text \<open>
  \<^verbatim>\<open>egl_desktopSetup\<close>; \<open>setup_ok\<close> is the result of
  \<^verbatim>\<open>egl_textureSetup\<close>. The format is stored first, then its type is checked.
\<close>

definition egl_desktopSetup ::
  "bool \<Rightarrow> EGL_Desktop \<Rightarrow> LG_RendererFormat \<Rightarrow> (bool \<times> EGL_Desktop) option" where
  "egl_desktopSetup setup_ok d0 fmt =
     (let d = d0\<lparr>format := fmt\<rparr> in
      case pixFmt_of_type (f_type fmt) of
        None \<Rightarrow> Some (False, emit (DEBUG_ERROR ''Unsupported frame format'') d)
      | Some pixFmt \<Rightarrow> do {
          let d = d\<lparr>width := f_width fmt, height := f_height fmt\<rparr>;
          d \<leftarrow> with_texture
                 (Call_textureSetup pixFmt (f_width fmt) (f_height fmt) (f_pitch fmt)) d;
          if \<not> setup_ok
          then Some (False, emit (DEBUG_ERROR ''Failed to setup the desktop texture'') d)
          else Some (True, d)
        })"

text \<open>What the texture code answers during one \<^verbatim>\<open>egl_desktopUpdate\<close>.\<close>

record update_env =
  dma_ok :: bool
  init_ok :: bool
  setup_ok :: bool
  frame_ok :: bool

definition egl_desktopUpdate ::
  "update_env \<Rightarrow> EGL_Desktop \<Rightarrow> FrameBuffer \<Rightarrow> int \<Rightarrow> FrameDamageRect list \<Rightarrow> int \<Rightarrow>
   (bool \<times> EGL_Desktop) option" where
  "egl_desktopUpdate env d0 frame dmaFd damageRects damageRectsCount =
     (let fromFrame = (\<lambda>d. do {
            d \<leftarrow> with_texture
                   (Call_textureUpdateFromFrame frame damageRects damageRectsCount) d;
            Some (frame_ok env, d)
          })
      in
      if useDMA d0 \<and> dmaFd \<ge> 0 then do {
        d \<leftarrow> with_texture (Call_textureUpdateFromDMA frame dmaFd) d0;
        if dma_ok env then Some (True, d)
        else do {
          let d = emit (DEBUG_WARN ''DMA update failed, disabling DMABUF imports'') d;
          let d = d\<lparr>useDMA := False\<rparr>;
          let d = egl_textureFree d;
          let d = egl_textureInit (init_ok env) EGL_TEXTYPE_FRAMEBUFFER d;
          if \<not> init_ok env
          then Some (False, emit (DEBUG_ERROR ''Failed to initialize the desktop texture'') d)
          else do {
            d \<leftarrow> setupFilters d;
            (ok, d) \<leftarrow> egl_desktopSetup (setup_ok env) d (format d);
            if \<not> ok then Some (False, d) else fromFrame d
          }
        }
      } else fromFrame d0)"

definition egl_desktopResize :: "EGL_Desktop \<Rightarrow> int \<Rightarrow> int \<Rightarrow> EGL_Desktop option" where
  "egl_desktopResize d0 w h =
     (if w > width d0 \<and> h > height d0 then do {
        let d = d0\<lparr>upscale := True\<rparr>;
        d \<leftarrow> (if ffxFSR1Enable d then do {
                d \<leftarrow> egl_textureEnableFilter (fst (ffxFSR1Handle d)) True d;
                egl_textureEnableFilter (snd (ffxFSR1Handle d)) True d
              } else Some d);
        d \<leftarrow> egl_textureSetFilterRes (fst (ffxFSR1Handle d)) w h d;
        d \<leftarrow> egl_textureSetFilterRes (snd (ffxFSR1Handle d)) w h d;
        egl_textureSetFilterRes (ffxCASHandle d) w h d
      } else do {
        let d = d0\<lparr>upscale := False\<rparr>;
        d \<leftarrow> egl_textureEnableFilter (fst (ffxFSR1Handle d)) False d;
        d \<leftarrow> egl_textureEnableFilter (snd (ffxFSR1Handle d)) False d;
        egl_textureSetFilterRes (ffxCASHandle d) 0 0 d
      })"

subsection \<open>Rendering\<close>

text \<open>
  What the texture answers during one \<^verbatim>\<open>egl_desktopRender\<close>: its processing
  status and its final (post-filter) size.
\<close>

record render_env =
  tex_status :: EGL_TexStatus
  finalSize :: "int \<times> int"

text \<open>
  Lines 493 to 519 of \<^verbatim>\<open>egl_desktopRender\<close>: the scale algorithm handed to the
  shader, from the configured algorithm, the caller's scale type and the final size.
\<close>

definition render_scaleAlgo ::
  "EGL_Desktop \<Rightarrow> EGL_DesktopScaleType \<Rightarrow> int \<times> int \<Rightarrow> int" where
  "render_scaleAlgo d scaleType0 fs =
     (let scaleAlgo0 = EGL_SCALE_NEAREST;
          scaleType = (if fst fs > width d \<or> snd fs > height d
                       then EGL_DESKTOP_DOWNSCALE else scaleType0)
      in
      if scaleAlgo d = EGL_SCALE_AUTO then
        (case scaleType of
           EGL_DESKTOP_NOSCALE \<Rightarrow> EGL_SCALE_NEAREST
         | EGL_DESKTOP_UPSCALE \<Rightarrow> EGL_SCALE_NEAREST
         | EGL_DESKTOP_DOWNSCALE \<Rightarrow> EGL_SCALE_LINEAR)
      else scaleAlgo d)"

text \<open>Lines 526 to 559: the uniforms, in the order of the array.\<close>

definition render_uniforms :: "EGL_Desktop \<Rightarrow> int \<Rightarrow> int \<times> int \<Rightarrow> EGL_Uniform list" where
  "render_uniforms d algo fs =
     [\<lparr>u_type = EGL_UNIFORM_TYPE_1I, u_location = uScaleAlgo (shader d), u_value = U_i [algo]\<rparr>,
      \<lparr>u_type = EGL_UNIFORM_TYPE_2F, u_location = uDesktopSize (shader d),
       u_value = U_f [real_of_int (width d), real_of_int (height d)]\<rparr>,
      \<lparr>u_type = EGL_UNIFORM_TYPE_2I, u_location = uTextureSize (shader d),
       u_value = U_i [fst fs, snd fs]\<rparr>,
      \<lparr>u_type = EGL_UNIFORM_TYPE_M3x2FV, u_location = uTransform (shader d),
       u_value = U_m False\<rparr>,
      \<lparr>u_type = EGL_UNIFORM_TYPE_1F, u_location = uNVGain (shader d),
       u_value = U_f [real_of_int (sint (nvGain d))]\<rparr>,
      \<lparr>u_type = EGL_UNIFORM_TYPE_1I, u_location = uCBMode (shader d),
       u_value = U_f [real_of_int (cbMode d)]\<rparr>]"

definition egl_desktopRender ::
  "render_env \<Rightarrow> EGL_Desktop \<Rightarrow> real \<Rightarrow> real \<Rightarrow> real \<Rightarrow> real \<Rightarrow> EGL_DesktopScaleType \<Rightarrow>
   LG_RendererRotate \<Rightarrow> FrameDamageRect list \<Rightarrow> (bool \<times> EGL_Desktop) option" where
  "egl_desktopRender env d0 x y scaleX scaleY scaleType rotate_arg rects = do {
     d \<leftarrow> with_texture Call_textureProcess d0;
     let d = (if tex_status env \<noteq> EGL_TEX_STATUS_OK \<and> tex_status env \<noteq> EGL_TEX_STATUS_NOTREADY
              then emit (DEBUG_ERROR ''Failed to process the desktop texture'') d else d);
     d \<leftarrow> with_texture Call_textureBind d;
     d \<leftarrow> with_texture Call_textureGetFinalSize d;
     let algo = render_scaleAlgo d scaleType (finalSize env);
     let d = emit (Call_desktopRectsMatrix (width d) (height d) x y scaleX scaleY rotate_arg) d;
     let d = emit (Call_desktopRectsUpdate rects (width d) (height d)) d;
     let d = emit (Call_shaderSetUniforms SHADER_desktop
                     (render_uniforms d algo (finalSize env))) d;
     let d = emit (Call_shaderUse SHADER_desktop) d;
     let d = emit Call_desktopRectsRender d;
     let d = emit Call_glBindTexture d;
     Some (True, d)
   }"

subsection \<open>Sequences of operations on a surface\<close>

text \<open>
  The operations a caller can apply to a constructed surface, with the answers of the
  collaborators during each.
\<close>

datatype op =
    Op_Setup bool LG_RendererFormat
  | Op_Update update_env FrameBuffer int "FrameDamageRect list" int
  | Op_Resize int int
  | Op_Render render_env real real real real EGL_DesktopScaleType LG_RendererRotate
      "FrameDamageRect list"
  | Op_ToggleNV int
  | Op_ConfigUI ui_input

fun step :: "op \<Rightarrow> EGL_Desktop \<Rightarrow> EGL_Desktop option" where
  "step (Op_Setup ok fmt) d = map_option snd (egl_desktopSetup ok d fmt)"
| "step (Op_Update env frame dmaFd rects n) d =
     map_option snd (egl_desktopUpdate env d frame dmaFd rects n)"
| "step (Op_Resize w h) d = egl_desktopResize d w h"
| "step (Op_Render env x y sx sy st rot rects) d =
     map_option snd (egl_desktopRender env d x y sx sy st rot rects)"
| "step (Op_ToggleNV key) d = Some (toggleNV key d)"
| "step (Op_ConfigUI ui) d = egl_desktopConfigUI ui d"

fun run :: "op list \<Rightarrow> EGL_Desktop \<Rightarrow> EGL_Desktop option" where
  "run [] d = Some d"
| "run (o1 # os) d = (case step o1 d of None \<Rightarrow> None | Some d' \<Rightarrow> run os d')"

subsection \<open>The scale selector as the specification words it\<close>

text \<open>
  The reference definition of section 4.3 of the specification, written from its three
  steps and not from the code: \<open>select(configured, detectedScaleType, sourceSize,
  finalFilteredSize, logicalSize)\<close>.
\<close>

definition spec_select ::
  "int \<Rightarrow> EGL_DesktopScaleType \<Rightarrow> int \<times> int \<Rightarrow> int \<times> int \<Rightarrow> int \<times> int \<Rightarrow> int" where
  "spec_select configured detectedScaleType sourceSize finalFilteredSize logicalSize =
     (let detected =
            (if fst finalFilteredSize > fst logicalSize \<or> snd finalFilteredSize > snd logicalSize
             then EGL_DESKTOP_DOWNSCALE else detectedScaleType)
      in
      if configured \<noteq> EGL_SCALE_AUTO then configured
      else if detected = EGL_DESKTOP_DOWNSCALE then EGL_SCALE_LINEAR
      else EGL_SCALE_NEAREST)"

subsection \<open>What the claims observe\<close>

text \<open>A zero-copy import is a call of \<^verbatim>\<open>egl_textureUpdateFromDMA\<close>.\<close>

fun is_DMA_import :: "call \<Rightarrow> bool" where
  "is_DMA_import (Call_textureUpdateFromDMA frame fd) = True"
| "is_DMA_import c = False"

definition dma_attempts :: "EGL_Desktop \<Rightarrow> nat" where
  "dma_attempts d = length (filter is_DMA_import (calls d))"

text \<open>
  Whether the stage a handle names is active now: the enabled flag the texture holds for
  it. The flag the user sets is \<open>ffxFSR1Enable\<close> or \<open>ffxCASEnable\<close> of the surface.
\<close>

definition activeNow :: "EGL_Desktop \<Rightarrow> PostProcessHandle \<Rightarrow> bool" where
  "activeNow d h =
     (case texture d of
        None \<Rightarrow> False
      | Some t \<Rightarrow> h < length (tex_filters t) \<and> flt_enabled (tex_filters t ! h))"

text \<open>
  The surface has a texture and its three handles name three stages of it, the CAS stage
  being another one than the two FSR passes: the state \<^verbatim>\<open>setupFilters\<close> leaves.
\<close>

definition filters_attached :: "EGL_Desktop \<Rightarrow> bool" where
  "filters_attached d =
     (case texture d of
        None \<Rightarrow> False
      | Some t \<Rightarrow>
          fst (ffxFSR1Handle d) < length (tex_filters t)
          \<and> snd (ffxFSR1Handle d) < length (tex_filters t)
          \<and> ffxCASHandle d < length (tex_filters t)
          \<and> ffxCASHandle d \<noteq> fst (ffxFSR1Handle d)
          \<and> ffxCASHandle d \<noteq> snd (ffxFSR1Handle d))"

text \<open>
  The state every operation keeps as long as the surface has its texture: the filters are
  attached, and an FSR pass is active only if the user enabled FSR.
\<close>

definition desktop_inv :: "EGL_Desktop \<Rightarrow> bool" where
  "desktop_inv d \<longleftrightarrow>
     filters_attached d
     \<and> (activeNow d (fst (ffxFSR1Handle d)) \<longrightarrow> ffxFSR1Enable d)
     \<and> (activeNow d (snd (ffxFSR1Handle d)) \<longrightarrow> ffxFSR1Enable d)"

section \<open>Basic facts\<close>

lemma emit_simps:
  "texture (emit c d) = texture d" "calls (emit c d) = calls d @ [c]"
  "useDMA (emit c d) = useDMA d" "width (emit c d) = width d" "height (emit c d) = height d"
  "format (emit c d) = format d" "upscale (emit c d) = upscale d"
  "ffxFSR1Enable (emit c d) = ffxFSR1Enable d" "ffxCASEnable (emit c d) = ffxCASEnable d"
  "ffxFSR1Handle (emit c d) = ffxFSR1Handle d" "ffxCASHandle (emit c d) = ffxCASHandle d"
  "ffxFSR1Uniform (emit c d) = ffxFSR1Uniform d" "ffxCASUniform (emit c d) = ffxCASUniform d"
  "nvGain (emit c d) = nvGain d" "nvMax (emit c d) = nvMax d" "scaleAlgo (emit c d) = scaleAlgo d"
  "cbMode (emit c d) = cbMode d" "shader (emit c d) = shader d"
  by (simp_all add: emit_def)

text \<open>What a texture call that returned has done to the surface.\<close>

lemma with_textureE:
  assumes "with_texture c d = Some d1"
  obtains t where "texture d = Some t" "d1 = d\<lparr>calls := calls d @ [c]\<rparr>"
  using assms by (auto simp add: with_texture_def emit_def split: option.splits)

lemma enableE:
  assumes "egl_textureEnableFilter h b d = Some d1"
  obtains t where "texture d = Some t" "h < length (tex_filters t)"
    "d1 = d\<lparr>texture := Some (t\<lparr>tex_filters :=
                 (tex_filters t)[h := (tex_filters t ! h)\<lparr>flt_enabled := b\<rparr>]\<rparr>),
            calls := calls d @ [Call_textureEnableFilter h b]\<rparr>"
  using assms
  by (auto simp add: egl_textureEnableFilter_def emit_def split: option.splits if_splits)

lemma setResE:
  assumes "egl_textureSetFilterRes h w ht d = Some d1"
  obtains t where "texture d = Some t" "h < length (tex_filters t)"
    "d1 = d\<lparr>texture := Some (t\<lparr>tex_filters :=
                 (tex_filters t)[h := (tex_filters t ! h)\<lparr>flt_res := Some (w, ht)\<rparr>]\<rparr>),
            calls := calls d @ [Call_textureSetFilterRes h w ht]\<rparr>"
  using assms
  by (auto simp add: egl_textureSetFilterRes_def emit_def split: option.splits if_splits)

subsection \<open>The transfer path\<close>

text \<open>
  No operation other than a frame update with the zero-copy path on makes a zero-copy
  import, and none sets \<open>useDMA\<close>.
\<close>

lemma dma_attempts_emit:
  "dma_attempts (emit c d) = (if is_DMA_import c then Suc (dma_attempts d) else dma_attempts d)"
  by (simp add: dma_attempts_def emit_def)

lemma dma_attempts_upd:
  "dma_attempts (d\<lparr>ffxFSR1Enable := a\<rparr>) = dma_attempts d"
  "dma_attempts (d\<lparr>ffxCASEnable := a\<rparr>) = dma_attempts d"
  "dma_attempts (d\<lparr>upscale := a\<rparr>) = dma_attempts d"
  "dma_attempts (d\<lparr>nvGain := g\<rparr>) = dma_attempts d"
  "dma_attempts (d\<lparr>scaleAlgo := i\<rparr>) = dma_attempts d"
  "dma_attempts (d\<lparr>format := f\<rparr>) = dma_attempts d"
  "dma_attempts (d\<lparr>width := w\<rparr>) = dma_attempts d"
  "dma_attempts (d\<lparr>height := w\<rparr>) = dma_attempts d"
  "dma_attempts (d\<lparr>ffxFSR1Uniform := u\<rparr>) = dma_attempts d"
  "dma_attempts (d\<lparr>ffxCASUniform := u\<rparr>) = dma_attempts d"
  "dma_attempts (d\<lparr>texture := t\<rparr>) = dma_attempts d"
  "dma_attempts (d\<lparr>useDMA := b\<rparr>) = dma_attempts d"
  by (simp_all add: dma_attempts_def)

lemma fsr1_path:
  "configUI_fsr1 ui (d, b) = Some (d', b') \<Longrightarrow>
     useDMA d' = useDMA d \<and> dma_attempts d' = dma_attempts d"
  by (cases "ui_fsr1 ui \<noteq> ffxFSR1Enable d";
      cases "ui_fsr1Sharpness ui \<noteq> uniform_f0 (ffxFSR1Uniform d)"; cases "ui_fsr1 ui")
    (auto simp add: configUI_fsr1_def Let_def bind_eq_Some_conv dma_attempts_def emit_def
      elim!: enableE)

lemma cas_path:
  "configUI_cas ui (d, b) = Some (d', b') \<Longrightarrow>
     useDMA d' = useDMA d \<and> dma_attempts d' = dma_attempts d"
  by (cases "ui_cas ui \<noteq> ffxCASEnable d";
      cases "ui_casSharpness ui \<noteq> uniform_f0 (ffxCASUniform d)"; cases "ui_cas ui")
    (auto simp add: configUI_cas_def Let_def bind_eq_Some_conv dma_attempts_def emit_def
      elim!: enableE)

lemma combo_path:
  "useDMA (foldl (\<lambda>d i. if sel i then d\<lparr>scaleAlgo := i\<rparr> else d) d xs) = useDMA d
   \<and> dma_attempts (foldl (\<lambda>d i. if sel i then d\<lparr>scaleAlgo := i\<rparr> else d) d xs) = dma_attempts d"
  by (induction xs arbitrary: d) (simp_all add: dma_attempts_upd)

lemma configUI_path:
  assumes "egl_desktopConfigUI ui d = Some d'"
  shows "useDMA d' = useDMA d \<and> dma_attempts d' = dma_attempts d"
proof -
  define d1 where "d1 = (if ui_comboOpen ui
              then foldl (\<lambda>d i. if ui_selectable ui i then d\<lparr>scaleAlgo := i\<rparr> else d) d
                     [0 .. EGL_SCALE_MAX - 1]
              else d)\<lparr>nvGain := ui_nvgain ui\<rparr>"
  have p1: "useDMA d1 = useDMA d \<and> dma_attempts d1 = dma_attempts d"
    by (simp add: d1_def combo_path dma_attempts_upd)
  from assms obtain d2 b2 d3 b3 where
    f: "configUI_fsr1 ui (d1, False) = Some (d2, b2)" and
    c: "configUI_cas ui (d2, b2) = Some (d3, b3)" and
    e: "(if b3 then Option.bind (with_texture Call_textureInvalidate d3)
           (\<lambda>d. Some (emit (Call_app_invalidateWindow True) d)) else Some d3) = Some d'"
    by (auto simp add: egl_desktopConfigUI_def Let_def d1_def bind_eq_Some_conv)
  from e have p4: "useDMA d' = useDMA d3 \<and> dma_attempts d' = dma_attempts d3"
    by (cases b3)
      (auto simp add: bind_eq_Some_conv dma_attempts_def emit_def elim!: with_textureE)
  from p1 fsr1_path [OF f] cas_path [OF c] p4 show ?thesis by simp
qed

lemma resize_path:
  "egl_desktopResize d w h = Some d' \<Longrightarrow>
     useDMA d' = useDMA d \<and> dma_attempts d' = dma_attempts d"
  by (cases "w > width d \<and> h > height d"; cases "ffxFSR1Enable d")
    (auto simp add: egl_desktopResize_def Let_def bind_eq_Some_conv dma_attempts_def
      elim!: enableE setResE)

lemma setup_path:
  "egl_desktopSetup ok d fmt = Some (r, d') \<Longrightarrow>
     useDMA d' = useDMA d \<and> dma_attempts d' = dma_attempts d"
  by (cases "pixFmt_of_type (f_type fmt)"; cases ok)
    (auto simp add: egl_desktopSetup_def Let_def bind_eq_Some_conv dma_attempts_def emit_def
      elim!: with_textureE)

lemma render_path:
  "egl_desktopRender env d x y sx sy st rot rects = Some (r, d') \<Longrightarrow>
     useDMA d' = useDMA d \<and> dma_attempts d' = dma_attempts d"
  by (cases "tex_status env")
    (auto simp add: egl_desktopRender_def Let_def bind_eq_Some_conv dma_attempts_def emit_def
      elim!: with_textureE)

lemma toggleNV_path:
  "useDMA (toggleNV key d) = useDMA d \<and> dma_attempts (toggleNV key d) = dma_attempts d"
  by (simp add: toggleNV_def Let_def dma_attempts_def emit_def)

lemma update_buffered:
  assumes "\<not> (useDMA d \<and> 0 \<le> dmaFd)"
  shows "egl_desktopUpdate env d frame dmaFd rects n =
     (case texture d of None \<Rightarrow> None
      | Some t \<Rightarrow> Some (frame_ok env, emit (Call_textureUpdateFromFrame frame rects n) d))"
  using assms by (auto simp add: egl_desktopUpdate_def with_texture_def split: option.splits)

lemma update_path:
  "\<not> useDMA d \<Longrightarrow> egl_desktopUpdate env d frame dmaFd rects n = Some (r, d') \<Longrightarrow>
     useDMA d' = useDMA d \<and> dma_attempts d' = dma_attempts d"
  by (auto simp add: update_buffered dma_attempts_emit emit_simps split: option.splits)

lemma step_path:
  assumes "\<not> useDMA d" "step a d = Some d'"
  shows "\<not> useDMA d' \<and> dma_attempts d' = dma_attempts d"
proof (cases a)
  case (Op_Setup ok fmt)
  with assms obtain r where "egl_desktopSetup ok d fmt = Some (r, d')" by auto
  from setup_path [OF this] assms show ?thesis by simp
next
  case (Op_Update env frame dmaFd rects n)
  with assms obtain r where "egl_desktopUpdate env d frame dmaFd rects n = Some (r, d')" by auto
  from update_path [OF assms(1) this] assms show ?thesis by simp
next
  case (Op_Resize w h)
  with assms have "egl_desktopResize d w h = Some d'" by simp
  from resize_path [OF this] assms show ?thesis by simp
next
  case (Op_Render env x y sx sy st rot rects)
  with assms obtain r where "egl_desktopRender env d x y sx sy st rot rects = Some (r, d')"
    by auto
  from render_path [OF this] assms show ?thesis by simp
next
  case (Op_ToggleNV key)
  with assms have "d' = toggleNV key d" by simp
  with toggleNV_path [of key d] assms show ?thesis by simp
next
  case (Op_ConfigUI ui)
  with assms have "egl_desktopConfigUI ui d = Some d'" by simp
  from configUI_path [OF this] assms show ?thesis by simp
qed

lemma run_path:
  "\<not> useDMA d \<Longrightarrow> run ops d = Some d' \<Longrightarrow> \<not> useDMA d' \<and> dma_attempts d' = dma_attempts d"
proof (induction ops arbitrary: d)
  case Nil
  then show ?case by simp
next
  case (Cons a ops)
  from Cons.prems obtain d1 where s: "step a d = Some d1" and r: "run ops d1 = Some d'"
    by (auto split: option.splits)
  from step_path [OF Cons.prems(1) s] have "\<not> useDMA d1" "dma_attempts d1 = dma_attempts d"
    by simp_all
  with Cons.IH [OF _ r] show ?case by simp
qed

text \<open>The frame update on the zero-copy path whose import fails, in full.\<close>

lemma update_downgrade_state:
  assumes "useDMA d" "0 \<le> dmaFd" "texture d \<noteq> None" "\<not> dma_ok env"
  shows "\<exists>d'. egl_desktopUpdate env d frame dmaFd rects n =
        Some (init_ok env \<and> pixFmt_of_type (f_type (format d)) \<noteq> None \<and> setup_ok env
              \<and> frame_ok env, d')
     \<and> \<not> useDMA d'
     \<and> texture d' =
         (if init_ok env then
            Some \<lparr>tex_type = EGL_TEXTYPE_FRAMEBUFFER, tex_filters =
              [\<lparr>flt_shader = SHADER_ffxFSR1_0, flt_enabled = ffxFSR1Enable d, flt_res = None\<rparr>,
               \<lparr>flt_shader = SHADER_ffxFSR1_1, flt_enabled = ffxFSR1Enable d, flt_res = None\<rparr>,
               \<lparr>flt_shader = SHADER_ffxCAS, flt_enabled = ffxCASEnable d, flt_res = None\<rparr>]\<rparr>
          else None)
     \<and> ffxFSR1Enable d' = ffxFSR1Enable d \<and> ffxCASEnable d' = ffxCASEnable d
     \<and> ffxFSR1Uniform d' = ffxFSR1Uniform d \<and> ffxCASUniform d' = ffxCASUniform d
     \<and> format d' = format d
     \<and> calls d' = calls d @
         [Call_textureUpdateFromDMA frame dmaFd,
          DEBUG_WARN ''DMA update failed, disabling DMABUF imports'',
          Call_textureFree,
          Call_textureInit EGL_TEXTYPE_FRAMEBUFFER True]
         @ (if \<not> init_ok env then [DEBUG_ERROR ''Failed to initialize the desktop texture'']
            else
              [Call_textureAddFilter SHADER_ffxFSR1_0 (ffxFSR1Enable d),
               Call_textureAddFilter SHADER_ffxFSR1_1 (ffxFSR1Enable d),
               Call_textureAddFilter SHADER_ffxCAS (ffxCASEnable d)]
              @ (case pixFmt_of_type (f_type (format d)) of
                   None \<Rightarrow> [DEBUG_ERROR ''Unsupported frame format'']
                 | Some pf \<Rightarrow>
                     [Call_textureSetup pf (f_width (format d)) (f_height (format d))
                        (f_pitch (format d))]
                     @ (if \<not> setup_ok env
                        then [DEBUG_ERROR ''Failed to setup the desktop texture'']
                        else [Call_textureUpdateFromFrame frame rects n])))"
proof -
  from assms obtain t where t: "texture d = Some t" by auto
  show ?thesis
    using assms t
    by (cases "pixFmt_of_type (f_type (format d))")
      (simp_all add: egl_desktopUpdate_def with_texture_def egl_textureFree_def
        egl_textureInit_def setupFilters_def egl_textureAddFilter_def egl_desktopSetup_def
        emit_def)
qed

lemma update_None:
  "texture d = None \<Longrightarrow> egl_desktopUpdate env d frame dmaFd rects n = None"
  by (simp add: egl_desktopUpdate_def with_texture_def)

lemma update_Some_texture:
  "egl_desktopUpdate env d frame dmaFd rects n = Some (r, d') \<Longrightarrow> texture d \<noteq> None"
  using update_None [of d env frame dmaFd rects n] by (cases "texture d") auto

lemma update_downgrade_handles:
  assumes "useDMA d" "0 \<le> dmaFd" "texture d \<noteq> None" "\<not> dma_ok env" "init_ok env"
  shows "\<exists>r d'. egl_desktopUpdate env d frame dmaFd rects n = Some (r, d')
     \<and> ffxFSR1Handle d' = (0, 1) \<and> ffxCASHandle d' = 2 \<and> upscale d' = upscale d"
proof -
  from assms obtain t where t: "texture d = Some t" by auto
  show ?thesis
    using assms t
    by (cases "pixFmt_of_type (f_type (format d))"; cases "setup_ok env")
      (auto simp add: egl_desktopUpdate_def with_texture_def egl_textureFree_def
        egl_textureInit_def setupFilters_def egl_textureAddFilter_def egl_desktopSetup_def
        emit_def)
qed

lemma setup_unsupported:
  assumes "pixFmt_of_type (f_type fmt) = None"
  shows "egl_desktopSetup ok d fmt =
     Some (False, emit (DEBUG_ERROR ''Unsupported frame format'') (d\<lparr>format := fmt\<rparr>))"
  using assms by (simp add: egl_desktopSetup_def)

subsection \<open>Construction\<close>

lemma init_ok_state:
  assumes "calloc_ok env" "textureInit_ok env" "shaderInit_ok env" "shaderCompile_ok env"
    "desktopRectsInit_ok env" "countedBufferNew_ok env"
  shows "\<exists>d. egl_desktopInit env dma maxRects = Some (True, Some d)
     \<and> texture d = Some \<lparr>tex_type = (if dma then EGL_TEXTYPE_DMABUF else EGL_TEXTYPE_FRAMEBUFFER),
          tex_filters =
            [\<lparr>flt_shader = SHADER_ffxFSR1_0, flt_enabled = opt_eglFilter_ffxFSR env, flt_res = None\<rparr>,
             \<lparr>flt_shader = SHADER_ffxFSR1_1, flt_enabled = opt_eglFilter_ffxFSR env, flt_res = None\<rparr>,
             \<lparr>flt_shader = SHADER_ffxCAS, flt_enabled = opt_eglFilter_ffxCAS env, flt_res = None\<rparr>]\<rparr>
     \<and> ffxFSR1Handle d = (0, 1) \<and> ffxCASHandle d = 2
     \<and> ffxFSR1Enable d = opt_eglFilter_ffxFSR env \<and> ffxCASEnable d = opt_eglFilter_ffxCAS env
     \<and> uniform_f0 (ffxFSR1Uniform d) = opt_eglFilter_ffxFSRSharpness env
     \<and> uniform_f0 (ffxCASUniform d) = opt_eglFilter_ffxCASSharpness env
     \<and> upscale d = False \<and> width d = 0 \<and> height d = 0 \<and> useDMA d = dma
     \<and> nvMax d = opt_egl_nvGainMax env \<and> nvGain d = opt_egl_nvGain env
     \<and> scaleAlgo d = opt_egl_scale env \<and> cbMode d = opt_egl_cbMode env"
  using assms
  by (simp add: egl_desktopInit_def egl_textureInit_def egl_initDesktopShader_def
      calloc_EGL_Desktop_def setupFilters_def egl_textureAddFilter_def emit_def uniform_f0_def)

lemma init_inv:
  assumes "egl_desktopInit env dma maxRects = Some (True, Some d)"
  shows "desktop_inv d"
proof -
  have ok: "calloc_ok env" "textureInit_ok env" "shaderInit_ok env" "shaderCompile_ok env"
    "desktopRectsInit_ok env" "countedBufferNew_ok env"
    using assms
    by (auto simp add: egl_desktopInit_def egl_initDesktopShader_def Let_def
        split: if_splits prod.splits)
  from init_ok_state [OF ok, of dma maxRects] assms show ?thesis
    by (auto simp add: desktop_inv_def filters_attached_def activeNow_def nth_Cons')
qed

subsection \<open>The state the operations keep\<close>

lemma desktop_inv_texture: "desktop_inv d \<Longrightarrow> \<exists>t. texture d = Some t"
  by (auto simp add: desktop_inv_def filters_attached_def split: option.splits)

lemma fsr1_inv:
  assumes "desktop_inv d"
  shows "\<exists>d' b'. configUI_fsr1 ui (d, b) = Some (d', b') \<and> desktop_inv d'"
proof -
  from assms obtain t where t: "texture d = Some t" using desktop_inv_texture by blast
  show ?thesis
    using assms t
    by (cases "ui_fsr1 ui \<noteq> ffxFSR1Enable d";
        cases "ui_fsr1Sharpness ui \<noteq> uniform_f0 (ffxFSR1Uniform d)"; cases "ui_fsr1 ui")
      (auto simp add: configUI_fsr1_def egl_textureEnableFilter_def emit_def desktop_inv_def
        filters_attached_def activeNow_def nth_list_update Let_def)
qed

lemma cas_inv:
  assumes "desktop_inv d"
  shows "\<exists>d' b'. configUI_cas ui (d, b) = Some (d', b') \<and> desktop_inv d'"
proof -
  from assms obtain t where t: "texture d = Some t" using desktop_inv_texture by blast
  show ?thesis
    using assms t
    by (cases "ui_cas ui \<noteq> ffxCASEnable d";
        cases "ui_casSharpness ui \<noteq> uniform_f0 (ffxCASUniform d)"; cases "ui_cas ui")
      (auto simp add: configUI_cas_def egl_textureEnableFilter_def emit_def desktop_inv_def
        filters_attached_def activeNow_def nth_list_update Let_def)
qed

lemma desktop_inv_upd:
  "desktop_inv (d\<lparr>scaleAlgo := a\<rparr>) = desktop_inv d"
  "desktop_inv (d\<lparr>nvGain := g\<rparr>) = desktop_inv d"
  "desktop_inv (d\<lparr>format := f\<rparr>) = desktop_inv d"
  "desktop_inv (d\<lparr>width := w\<rparr>) = desktop_inv d"
  "desktop_inv (d\<lparr>height := h\<rparr>) = desktop_inv d"
  "desktop_inv (d\<lparr>calls := cs\<rparr>) = desktop_inv d"
  "desktop_inv (emit c d) = desktop_inv d"
  by (simp_all add: desktop_inv_def filters_attached_def activeNow_def emit_def
      split: option.splits)

lemma combo_inv:
  "desktop_inv (foldl (\<lambda>d i. if sel i then d\<lparr>scaleAlgo := i\<rparr> else d) d xs) = desktop_inv d"
  by (induction xs arbitrary: d) (simp_all add: desktop_inv_upd)

lemma configUI_inv:
  assumes "desktop_inv d"
  shows "\<exists>d'. egl_desktopConfigUI ui d = Some d' \<and> desktop_inv d'"
proof -
  define d1 where "d1 = (if ui_comboOpen ui
              then foldl (\<lambda>d i. if ui_selectable ui i then d\<lparr>scaleAlgo := i\<rparr> else d) d
                     [0 .. EGL_SCALE_MAX - 1]
              else d)\<lparr>nvGain := ui_nvgain ui\<rparr>"
  have i1: "desktop_inv d1" using assms by (simp add: d1_def desktop_inv_upd combo_inv)
  from fsr1_inv [OF i1, of ui False] obtain d2 b2 where
    f: "configUI_fsr1 ui (d1, False) = Some (d2, b2)" and i2: "desktop_inv d2" by blast
  from cas_inv [OF i2, of ui b2] obtain d3 b3 where
    c: "configUI_cas ui (d2, b2) = Some (d3, b3)" and i3: "desktop_inv d3" by blast
  from i3 obtain t3 where t3: "texture d3 = Some t3" using desktop_inv_texture by blast
  define d' where "d' = (if b3 then emit (Call_app_invalidateWindow True)
                           (emit Call_textureInvalidate d3) else d3)"
  have "egl_desktopConfigUI ui d = Some d'"
    using f c t3
    by (simp add: egl_desktopConfigUI_def Let_def d1_def [symmetric] d'_def with_texture_def)
  moreover have "desktop_inv d'" using i3 by (simp add: d'_def desktop_inv_upd)
  ultimately show ?thesis by blast
qed

lemma resize_state:
  assumes "desktop_inv d"
  shows "\<exists>d'. egl_desktopResize d w h = Some d'
     \<and> upscale d' = (w > width d \<and> h > height d)
     \<and> activeNow d' (fst (ffxFSR1Handle d')) = (ffxFSR1Enable d' \<and> upscale d')
     \<and> activeNow d' (snd (ffxFSR1Handle d')) = (ffxFSR1Enable d' \<and> upscale d')
     \<and> ffxFSR1Enable d' = ffxFSR1Enable d
     \<and> ffxCASEnable d' = ffxCASEnable d
     \<and> desktop_inv d'"
proof -
  from assms obtain t where t: "texture d = Some t" using desktop_inv_texture by blast
  show ?thesis
    using assms t
    by (cases "w > width d \<and> h > height d"; cases "ffxFSR1Enable d")
      (auto simp add: egl_desktopResize_def egl_textureEnableFilter_def
        egl_textureSetFilterRes_def emit_def desktop_inv_def filters_attached_def
        activeNow_def nth_list_update)
qed

lemma setup_inv:
  assumes "desktop_inv d"
  shows "\<exists>r d'. egl_desktopSetup ok d fmt = Some (r, d') \<and> desktop_inv d'"
proof -
  from assms obtain t where t: "texture d = Some t" using desktop_inv_texture by blast
  show ?thesis
    using assms t
    by (cases "pixFmt_of_type (f_type fmt)"; cases ok)
      (auto simp add: egl_desktopSetup_def with_texture_def desktop_inv_upd)
qed

lemma render_inv:
  assumes "desktop_inv d"
  shows "\<exists>d'. egl_desktopRender env d x y sx sy st rot rects = Some (True, d') \<and> desktop_inv d'"
proof -
  from assms obtain t where t: "texture d = Some t" using desktop_inv_texture by blast
  show ?thesis
    using assms t
    by (cases "tex_status env")
      (simp_all add: egl_desktopRender_def with_texture_def emit_simps desktop_inv_upd Let_def)
qed

lemma toggleNV_inv: "desktop_inv (toggleNV key d) = desktop_inv d"
  by (simp add: toggleNV_def Let_def desktop_inv_upd)

lemma update_inv:
  assumes "desktop_inv d"
  shows "\<exists>r d'. egl_desktopUpdate env d frame dmaFd rects n = Some (r, d')
     \<and> (desktop_inv d' \<or> texture d' = None)"
proof -
  from assms obtain t where t: "texture d = Some t" using desktop_inv_texture by blast
  show ?thesis
  proof (cases "useDMA d \<and> 0 \<le> dmaFd")
    case False
    then show ?thesis using assms t
      by (auto simp add: egl_desktopUpdate_def with_texture_def desktop_inv_upd)
  next
    case dma: True
    show ?thesis
    proof (cases "dma_ok env")
      case True
      with dma show ?thesis using assms t
        by (auto simp add: egl_desktopUpdate_def with_texture_def desktop_inv_upd)
    next
      case False
      with dma show ?thesis using t
        by (cases "pixFmt_of_type (f_type (format d))"; cases "init_ok env"; cases "setup_ok env")
          (auto simp add: egl_desktopUpdate_def with_texture_def egl_textureFree_def
            egl_textureInit_def setupFilters_def egl_textureAddFilter_def egl_desktopSetup_def
            emit_def desktop_inv_def filters_attached_def activeNow_def)
    qed
  qed
qed

lemma step_inv:
  assumes "desktop_inv d"
  shows "\<exists>d'. step a d = Some d' \<and> (desktop_inv d' \<or> texture d' = None)"
proof (cases a)
  case (Op_Setup ok fmt)
  with setup_inv [OF assms, of ok fmt] show ?thesis by auto
next
  case (Op_Update env frame dmaFd rects n)
  with update_inv [OF assms, of env frame dmaFd rects n] show ?thesis by auto
next
  case (Op_Resize w h)
  with resize_state [OF assms, of w h] show ?thesis by auto
next
  case (Op_Render env x y sx sy st rot rects)
  with render_inv [OF assms, of env x y sx sy st rot rects] show ?thesis by auto
next
  case (Op_ToggleNV key)
  with assms show ?thesis by (simp add: toggleNV_inv)
next
  case (Op_ConfigUI ui)
  with configUI_inv [OF assms, of ui] show ?thesis by auto
qed

text \<open>
  Once the texture is gone (a downgrade whose buffered texture could not be created) no
  operation brings it back. So every surface reached from a successful construction keeps
  \<open>desktop_inv\<close> or has no texture.
\<close>

lemma fsr1_no_texture:
  "texture d = None \<Longrightarrow> configUI_fsr1 ui (d, b) = Some (d', b') \<Longrightarrow> texture d' = None"
  by (cases "ui_fsr1 ui \<noteq> ffxFSR1Enable d";
      cases "ui_fsr1Sharpness ui \<noteq> uniform_f0 (ffxFSR1Uniform d)"; cases "ui_fsr1 ui")
    (auto simp add: configUI_fsr1_def egl_textureEnableFilter_def Let_def emit_def)

lemma cas_no_texture:
  "texture d = None \<Longrightarrow> configUI_cas ui (d, b) = Some (d', b') \<Longrightarrow> texture d' = None"
  by (cases "ui_cas ui \<noteq> ffxCASEnable d";
      cases "ui_casSharpness ui \<noteq> uniform_f0 (ffxCASUniform d)"; cases "ui_cas ui")
    (auto simp add: configUI_cas_def egl_textureEnableFilter_def Let_def emit_def)

lemma combo_texture:
  "texture (foldl (\<lambda>d i. if sel i then d\<lparr>scaleAlgo := i\<rparr> else d) d xs) = texture d"
  by (induction xs arbitrary: d) simp_all

lemma configUI_no_texture:
  assumes "texture d = None" "egl_desktopConfigUI ui d = Some d'"
  shows "texture d' = None"
proof -
  define d1 where "d1 = (if ui_comboOpen ui
              then foldl (\<lambda>d i. if ui_selectable ui i then d\<lparr>scaleAlgo := i\<rparr> else d) d
                     [0 .. EGL_SCALE_MAX - 1]
              else d)\<lparr>nvGain := ui_nvgain ui\<rparr>"
  have t1: "texture d1 = None" using assms(1) by (simp add: d1_def combo_texture)
  from assms(2) obtain d2 b2 d3 b3 where
    f: "configUI_fsr1 ui (d1, False) = Some (d2, b2)" and
    c: "configUI_cas ui (d2, b2) = Some (d3, b3)" and
    e: "(if b3 then Option.bind (with_texture Call_textureInvalidate d3)
           (\<lambda>d. Some (emit (Call_app_invalidateWindow True) d)) else Some d3) = Some d'"
    by (auto simp add: egl_desktopConfigUI_def Let_def d1_def bind_eq_Some_conv)
  from fsr1_no_texture [OF t1 f] have "texture d2 = None" .
  from cas_no_texture [OF this c] have "texture d3 = None" .
  with e show ?thesis by (cases b3) (auto simp add: with_texture_def)
qed

lemma step_no_texture:
  assumes "texture d = None" "step a d = Some d'"
  shows "texture d' = None"
proof (cases a)
  case (Op_Setup ok fmt)
  with assms show ?thesis
    by (cases "pixFmt_of_type (f_type fmt)")
      (auto simp add: egl_desktopSetup_def with_texture_def emit_def)
next
  case (Op_Update env frame dmaFd rects n)
  with assms show ?thesis by (simp add: update_None)
next
  case (Op_Resize w h)
  with assms show ?thesis
    by (cases "w > width d \<and> h > height d"; cases "ffxFSR1Enable d")
      (auto simp add: egl_desktopResize_def egl_textureEnableFilter_def
        egl_textureSetFilterRes_def)
next
  case (Op_Render env x y sx sy st rot rects)
  with assms show ?thesis by (simp add: egl_desktopRender_def with_texture_def)
next
  case (Op_ToggleNV key)
  with assms show ?thesis by (auto simp add: toggleNV_def Let_def emit_def)
next
  case (Op_ConfigUI ui)
  with assms configUI_no_texture [of d ui d'] show ?thesis by simp
qed

lemma run_inv:
  assumes "desktop_inv d \<or> texture d = None" "run ops d = Some d'"
  shows "desktop_inv d' \<or> texture d' = None"
  using assms
proof (induction ops arbitrary: d)
  case Nil
  then show ?case by simp
next
  case (Cons a ops)
  from Cons.prems(2) obtain d1 where s: "step a d = Some d1" and r: "run ops d1 = Some d'"
    by (auto split: option.splits)
  have "desktop_inv d1 \<or> texture d1 = None"
  proof (cases "texture d = None")
    case True
    from step_no_texture [OF True s] show ?thesis by simp
  next
    case False
    with Cons.prems(1) have "desktop_inv d" by simp
    from step_inv [OF this, of a] s show ?thesis by auto
  qed
  from Cons.IH [OF this r] show ?case .
qed

lemma reachable_inv:
  assumes "egl_desktopInit env dma maxRects = Some (True, Some d0)" "run ops d0 = Some d"
  shows "desktop_inv d \<or> texture d = None"
  using run_inv [of d0 ops d] init_inv [OF assms(1)] assms(2) by simp

subsection \<open>The configuration panel\<close>

lemma fsr1_section:
  assumes "filters_attached d"
  shows "\<exists>d' b'. configUI_fsr1 ui (d, b) = Some (d', b')
     \<and> filters_attached d'
     \<and> ffxCASEnable d' = ffxCASEnable d \<and> ffxCASUniform d' = ffxCASUniform d
     \<and> (b \<longrightarrow> b')
     \<and> (ui_fsr1Sharpness ui \<noteq> uniform_f0 (ffxFSR1Uniform d) \<longrightarrow>
          ffxFSR1Enable d' \<and> b'
          \<and> uniform_f0 (ffxFSR1Uniform d') = 2 - ui_fsr1Sharpness ui * 2)
     \<and> (ui_fsr1Sharpness ui = uniform_f0 (ffxFSR1Uniform d) \<longrightarrow>
          ffxFSR1Enable d' = ui_fsr1 ui \<and> ffxFSR1Uniform d' = ffxFSR1Uniform d)"
proof -
  from assms obtain t where t: "texture d = Some t"
    by (auto simp add: filters_attached_def split: option.splits)
  show ?thesis
    using assms t
    by (cases "ui_fsr1 ui \<noteq> ffxFSR1Enable d";
        cases "ui_fsr1Sharpness ui \<noteq> uniform_f0 (ffxFSR1Uniform d)"; cases "ui_fsr1 ui")
      (auto simp add: configUI_fsr1_def egl_textureEnableFilter_def emit_def
        filters_attached_def set_f0_def uniform_f0_def Let_def)
qed

lemma cas_section:
  assumes "filters_attached d"
  shows "\<exists>d' b'. configUI_cas ui (d, b) = Some (d', b')
     \<and> filters_attached d'
     \<and> ffxFSR1Enable d' = ffxFSR1Enable d \<and> ffxFSR1Uniform d' = ffxFSR1Uniform d
     \<and> (b \<longrightarrow> b')
     \<and> (ui_casSharpness ui \<noteq> uniform_f0 (ffxCASUniform d) \<longrightarrow>
          ffxCASEnable d' \<and> b' \<and> uniform_f0 (ffxCASUniform d') = ui_casSharpness ui)
     \<and> (ui_casSharpness ui = uniform_f0 (ffxCASUniform d) \<longrightarrow>
          ffxCASEnable d' = ui_cas ui \<and> ffxCASUniform d' = ffxCASUniform d)"
proof -
  from assms obtain t where t: "texture d = Some t"
    by (auto simp add: filters_attached_def split: option.splits)
  show ?thesis
    using assms t
    by (cases "ui_cas ui \<noteq> ffxCASEnable d";
        cases "ui_casSharpness ui \<noteq> uniform_f0 (ffxCASUniform d)"; cases "ui_cas ui")
      (auto simp add: configUI_cas_def egl_textureEnableFilter_def emit_def
        filters_attached_def set_f0_def uniform_f0_def Let_def)
qed


lemma fsr1_calls: "configUI_fsr1 ui (d, b) = Some (d', b') \<Longrightarrow> \<exists>cs. calls d' = calls d @ cs"
  by (cases "ui_fsr1 ui \<noteq> ffxFSR1Enable d";
      cases "ui_fsr1Sharpness ui \<noteq> uniform_f0 (ffxFSR1Uniform d)"; cases "ui_fsr1 ui")
    (auto simp add: configUI_fsr1_def Let_def bind_eq_Some_conv emit_def elim!: enableE)

lemma cas_calls: "configUI_cas ui (d, b) = Some (d', b') \<Longrightarrow> \<exists>cs. calls d' = calls d @ cs"
  by (cases "ui_cas ui \<noteq> ffxCASEnable d";
      cases "ui_casSharpness ui \<noteq> uniform_f0 (ffxCASUniform d)"; cases "ui_cas ui")
    (auto simp add: configUI_cas_def Let_def bind_eq_Some_conv emit_def elim!: enableE)

lemma combo_frame:
  "\<exists>a. foldl (\<lambda>d i. if sel i then d\<lparr>scaleAlgo := i\<rparr> else d) d xs = d\<lparr>scaleAlgo := a\<rparr>"
proof (induction xs arbitrary: d)
  case Nil
  have "foldl (\<lambda>d i. if sel i then d\<lparr>scaleAlgo := i\<rparr> else d) d []
      = d\<lparr>scaleAlgo := scaleAlgo d\<rparr>" by simp
  then show ?case ..
next
  case (Cons x xs)
  show ?case
  proof (cases "sel x")
    case True
    from Cons [of "d\<lparr>scaleAlgo := x\<rparr>"] True show ?thesis by simp
  next
    case False
    with Cons [of d] show ?thesis by simp
  qed
qed


subsection \<open>Night vision\<close>

text \<open>Below the maximum of a 32-bit counter the increment does not wrap.\<close>

lemma sint_succ_32:
  fixes g m :: "32 word"
  assumes "sint g < sint m"
  shows "sint (g + 1) = sint g + 1"
proof -
  have "sint m < 2 ^ 31" using sint_lt [of m] by simp
  moreover have "- (2 ^ 31) \<le> sint g" using sint_ge [of g] by simp
  ultimately have "- (2 ^ 31) \<le> sint g + 1" "sint g + 1 < 2 ^ 31" using assms by linarith+
  then have "signed_take_bit 31 (sint g + 1) = sint g + 1"
    by (rule signed_take_bit_int_eq_self)
  then show ?thesis by (simp add: sint_word_add)
qed

lemma toggleNV_nvMax: "nvMax (toggleNV key d) = nvMax d"
  by (simp add: toggleNV_def Let_def emit_def)

lemma toggleNV_nvGain:
  "nvGain (toggleNV key d) = (if nvGain d = nvMax d then 0 else nvGain d + 1)"
  by (simp add: toggleNV_def Let_def emit_def)

lemma toggleNV_step:
  assumes "0 \<le> sint (nvGain d)" "sint (nvGain d) \<le> sint (nvMax d)"
  shows "sint (nvGain (toggleNV key d)) = (sint (nvGain d) + 1) mod (sint (nvMax d) + 1)"
proof (cases "nvGain d = nvMax d")
  case True
  then show ?thesis by (simp add: toggleNV_nvGain)
next
  case False
  then have "sint (nvGain d) \<noteq> sint (nvMax d)" using signed_word_eqI by blast
  with assms have lt: "sint (nvGain d) < sint (nvMax d)" by simp
  then have "sint (nvGain d + 1) = sint (nvGain d) + 1" by (rule sint_succ_32)
  with False lt assms show ?thesis by (simp add: toggleNV_nvGain)
qed

lemma toggleNV_funpow_nvMax: "nvMax ((toggleNV key ^^ n) d) = nvMax d"
  by (induction n) (simp_all add: toggleNV_nvMax)

lemma toggleNV_funpow:
  assumes "0 \<le> sint (nvMax d)" "nvGain d = 0"
  shows "sint (nvGain ((toggleNV key ^^ n) d)) = int n mod (sint (nvMax d) + 1)"
proof (induction n)
  case 0
  then show ?case using assms by simp
next
  case (Suc n)
  let ?d = "(toggleNV key ^^ n) d"
  have m: "nvMax ?d = nvMax d" by (rule toggleNV_funpow_nvMax)
  have lo: "0 \<le> sint (nvGain ?d)" using Suc assms by simp
  have hi: "sint (nvGain ?d) \<le> sint (nvMax ?d)"
    using Suc assms m pos_mod_bound [of "sint (nvMax d) + 1" "int n"] by simp
  have "sint (nvGain (toggleNV key ?d)) = (sint (nvGain ?d) + 1) mod (sint (nvMax ?d) + 1)"
    using lo hi by (rule toggleNV_step)
  then show ?case using Suc m by (simp add: mod_simps ac_simps)
qed

lemma toggleNV_calls:
  "\<exists>a. calls (toggleNV key d) = calls d @ [a, Call_app_invalidateWindow True]"
  by (simp add: toggleNV_def Let_def emit_def)

subsection \<open>Scale selection\<close>

lemma render_scaleAlgo_spec:
  "render_scaleAlgo d st fs = spec_select (scaleAlgo d) st src fs (width d, height d)"
  by (cases st) (simp_all add: render_scaleAlgo_def spec_select_def)

section \<open>The claims\<close>

text \<open>
  C1. When a frame update on the zero-copy path finds its import failed, the surface it
  leaves has the zero-copy path off; after any further sequence of operations on that
  surface (format setup, frame update, resize, render, night-vision toggle, configuration
  panel) the path is still off and no further zero-copy import has been made; and every
  frame update on it is the buffered ingestion alone. The operations are all the functions
  of the file that act on a constructed surface, apart from \<^verbatim>\<open>egl_desktopFree\<close>,
  which ends it; the constructor, which makes a new surface, is the only writer of
  \<open>useDMA\<close> besides the downgrade.
\<close>

theorem downgrade_is_permanent:
  assumes "useDMA d" "0 \<le> dmaFd" "\<not> dma_ok env"
    and "egl_desktopUpdate env d frame dmaFd rects n = Some (r, d1)"
    and "run ops d1 = Some d2"
  shows "\<not> useDMA d1 \<and> \<not> useDMA d2 \<and> dma_attempts d2 = dma_attempts d1
     \<and> egl_desktopUpdate env' d2 frame' dmaFd' rects' n' =
         (case texture d2 of
            None \<Rightarrow> None
          | Some t \<Rightarrow>
              Some (frame_ok env', emit (Call_textureUpdateFromFrame frame' rects' n') d2))"
proof -
  from assms(4) have "texture d \<noteq> None" by (rule update_Some_texture)
  from update_downgrade_state [OF assms(1,2) this assms(3), of frame rects n] assms(4)
  have d1: "\<not> useDMA d1" by auto
  from run_path [OF d1 assms(5)] have d2: "\<not> useDMA d2" "dma_attempts d2 = dma_attempts d1"
    by simp_all
  from d2(1) have "egl_desktopUpdate env' d2 frame' dmaFd' rects' n' =
         (case texture d2 of
            None \<Rightarrow> None
          | Some t \<Rightarrow>
              Some (frame_ok env', emit (Call_textureUpdateFromFrame frame' rects' n') d2))"
    by (intro update_buffered) simp
  with d1 d2 show ?thesis by simp
qed

theorem downgrade_is_permanent_witness:
  "\<exists>r d1 d2.
     egl_desktopUpdate \<lparr>dma_ok = False, init_ok = True, setup_ok = True, frame_ok = True\<rparr>
       (calloc_EGL_Desktop\<lparr>texture := Some \<lparr>tex_type = EGL_TEXTYPE_DMABUF, tex_filters = []\<rparr>,
          useDMA := True,
          format := \<lparr>f_type = FRAME_TYPE_BGRA, f_width = 1920, f_height = 1080, f_pitch = 7680\<rparr>\<rparr>)
       7 3 [] 0 = Some (r, d1)
     \<and> run [Op_Update \<lparr>dma_ok = True, init_ok = True, setup_ok = True, frame_ok = True\<rparr> 8 3 [] 0,
             Op_ToggleNV 0] d1 = Some d2
     \<and> \<not> useDMA d1 \<and> \<not> useDMA d2 \<and> dma_attempts d2 = dma_attempts d1 \<and> dma_attempts d2 = 1"
proof -
  let ?env = "\<lparr>dma_ok = False, init_ok = True, setup_ok = True, frame_ok = True\<rparr>"
  let ?d = "calloc_EGL_Desktop\<lparr>texture := Some \<lparr>tex_type = EGL_TEXTYPE_DMABUF, tex_filters = []\<rparr>,
          useDMA := True,
          format := \<lparr>f_type = FRAME_TYPE_BGRA, f_width = 1920, f_height = 1080, f_pitch = 7680\<rparr>\<rparr>"
  let ?ops = "[Op_Update \<lparr>dma_ok = True, init_ok = True, setup_ok = True, frame_ok = True\<rparr> 8 3 [] 0,
             Op_ToggleNV 0]"
  have h: "useDMA ?d" "(0::int) \<le> 3" "\<not> dma_ok ?env" "texture ?d \<noteq> None" by simp_all
  from update_downgrade_state [OF h(1,2,4,3), of 7 "[]" 0]
  obtain d1 where u: "egl_desktopUpdate ?env ?d 7 3 [] 0 = Some (True, d1)"
    and n1: "\<not> useDMA d1"
    and t1: "texture d1 = Some \<lparr>tex_type = EGL_TEXTYPE_FRAMEBUFFER, tex_filters =
              [\<lparr>flt_shader = SHADER_ffxFSR1_0, flt_enabled = False, flt_res = None\<rparr>,
               \<lparr>flt_shader = SHADER_ffxFSR1_1, flt_enabled = False, flt_res = None\<rparr>,
               \<lparr>flt_shader = SHADER_ffxCAS, flt_enabled = False, flt_res = None\<rparr>]\<rparr>"
    and c1: "calls d1 = [Call_textureUpdateFromDMA 7 3,
          DEBUG_WARN ''DMA update failed, disabling DMABUF imports'',
          Call_textureFree,
          Call_textureInit EGL_TEXTYPE_FRAMEBUFFER True,
          Call_textureAddFilter SHADER_ffxFSR1_0 False,
          Call_textureAddFilter SHADER_ffxFSR1_1 False,
          Call_textureAddFilter SHADER_ffxCAS False,
          Call_textureSetup EGL_PF_BGRA 1920 1080 7680,
          Call_textureUpdateFromFrame 7 [] 0]"
    by (auto simp add: calloc_EGL_Desktop_def)
  have r: "run ?ops d1 = Some (toggleNV 0 (emit (Call_textureUpdateFromFrame 8 [] 0) d1))"
    using n1 t1 by (simp add: update_buffered)
  have a1: "dma_attempts d1 = 1" by (simp add: dma_attempts_def c1)
  from downgrade_is_permanent [OF h(1,2,3) u r] a1 u r show ?thesis by auto
qed

text \<open>
  C2. A frame update with the zero-copy path on, a handle that is not negative and a
  texture, whose zero-copy import fails, does the following within the call, in this
  order: the import attempt, the warning, freeing the texture, creating a buffered one,
  adding the three filter stages with the user's enable flags, the texture setup with
  the stored format, and the buffered ingestion of the same frame and damage rectangles.
  The path is off afterwards and the enable flags, the sharpness uniforms and the format
  are unchanged. It returns the result of the buffered ingestion; when the new texture
  cannot be created, the stored format is not supported, or the texture setup fails, it
  logs the error, stops there and returns false.
\<close>

theorem update_dma_failure_downgrade:
  assumes "useDMA d" "0 \<le> dmaFd" "texture d \<noteq> None" "\<not> dma_ok env"
  shows "\<exists>d'. egl_desktopUpdate env d frame dmaFd rects n =
        Some (init_ok env \<and> pixFmt_of_type (f_type (format d)) \<noteq> None \<and> setup_ok env
              \<and> frame_ok env, d')
     \<and> \<not> useDMA d'
     \<and> texture d' =
         (if init_ok env then
            Some \<lparr>tex_type = EGL_TEXTYPE_FRAMEBUFFER, tex_filters =
              [\<lparr>flt_shader = SHADER_ffxFSR1_0, flt_enabled = ffxFSR1Enable d, flt_res = None\<rparr>,
               \<lparr>flt_shader = SHADER_ffxFSR1_1, flt_enabled = ffxFSR1Enable d, flt_res = None\<rparr>,
               \<lparr>flt_shader = SHADER_ffxCAS, flt_enabled = ffxCASEnable d, flt_res = None\<rparr>]\<rparr>
          else None)
     \<and> ffxFSR1Enable d' = ffxFSR1Enable d \<and> ffxCASEnable d' = ffxCASEnable d
     \<and> ffxFSR1Uniform d' = ffxFSR1Uniform d \<and> ffxCASUniform d' = ffxCASUniform d
     \<and> format d' = format d
     \<and> calls d' = calls d @
         [Call_textureUpdateFromDMA frame dmaFd,
          DEBUG_WARN ''DMA update failed, disabling DMABUF imports'',
          Call_textureFree,
          Call_textureInit EGL_TEXTYPE_FRAMEBUFFER True]
         @ (if \<not> init_ok env then [DEBUG_ERROR ''Failed to initialize the desktop texture'']
            else
              [Call_textureAddFilter SHADER_ffxFSR1_0 (ffxFSR1Enable d),
               Call_textureAddFilter SHADER_ffxFSR1_1 (ffxFSR1Enable d),
               Call_textureAddFilter SHADER_ffxCAS (ffxCASEnable d)]
              @ (case pixFmt_of_type (f_type (format d)) of
                   None \<Rightarrow> [DEBUG_ERROR ''Unsupported frame format'']
                 | Some pf \<Rightarrow>
                     [Call_textureSetup pf (f_width (format d)) (f_height (format d))
                        (f_pitch (format d))]
                     @ (if \<not> setup_ok env
                        then [DEBUG_ERROR ''Failed to setup the desktop texture'']
                        else [Call_textureUpdateFromFrame frame rects n])))"
  using assms by (rule update_downgrade_state)

theorem update_dma_failure_downgrade_witness:
  "useDMA (calloc_EGL_Desktop\<lparr>texture := Some \<lparr>tex_type = EGL_TEXTYPE_DMABUF, tex_filters = []\<rparr>,
          useDMA := True, ffxFSR1Enable := True,
          format := \<lparr>f_type = FRAME_TYPE_BGRA, f_width = 1920, f_height = 1080, f_pitch = 7680\<rparr>\<rparr>)
   \<and> (\<exists>d'. egl_desktopUpdate \<lparr>dma_ok = False, init_ok = True, setup_ok = True, frame_ok = False\<rparr>
       (calloc_EGL_Desktop\<lparr>texture := Some \<lparr>tex_type = EGL_TEXTYPE_DMABUF, tex_filters = []\<rparr>,
          useDMA := True, ffxFSR1Enable := True,
          format := \<lparr>f_type = FRAME_TYPE_BGRA, f_width = 1920, f_height = 1080, f_pitch = 7680\<rparr>\<rparr>)
       7 3 [\<lparr>r_x = 0, r_y = 0, r_width = 16, r_height = 16\<rparr>] 1 = Some (False, d')
     \<and> \<not> useDMA d'
     \<and> calls d' =
         [Call_textureUpdateFromDMA 7 3,
          DEBUG_WARN ''DMA update failed, disabling DMABUF imports'',
          Call_textureFree,
          Call_textureInit EGL_TEXTYPE_FRAMEBUFFER True,
          Call_textureAddFilter SHADER_ffxFSR1_0 True,
          Call_textureAddFilter SHADER_ffxFSR1_1 True,
          Call_textureAddFilter SHADER_ffxCAS False,
          Call_textureSetup EGL_PF_BGRA 1920 1080 7680,
          Call_textureUpdateFromFrame 7 [\<lparr>r_x = 0, r_y = 0, r_width = 16, r_height = 16\<rparr>] 1])"
  using update_dma_failure_downgrade
    [where d = "calloc_EGL_Desktop\<lparr>texture := Some \<lparr>tex_type = EGL_TEXTYPE_DMABUF, tex_filters = []\<rparr>,
          useDMA := True, ffxFSR1Enable := True,
          format := \<lparr>f_type = FRAME_TYPE_BGRA, f_width = 1920, f_height = 1080, f_pitch = 7680\<rparr>\<rparr>"
     and env = "\<lparr>dma_ok = False, init_ok = True, setup_ok = True, frame_ok = False\<rparr>"
     and dmaFd = 3 and frame = 7 and rects = "[\<lparr>r_x = 0, r_y = 0, r_width = 16, r_height = 16\<rparr>]"
     and n = 1]
  by (auto simp add: calloc_EGL_Desktop_def)

text \<open>
  C3. The scale algorithm \<^verbatim>\<open>egl_desktopRender\<close> hands to the shader is the one the
  reference definition \<open>spec_select\<close> gives for the configured algorithm, the caller's
  scale type, the texture's final size and the logical desktop size: a final size larger
  than the desktop in either axis forces Downscale, a configured algorithm other than
  Auto is returned as it is, and Auto maps Downscale to Linear and the other two to
  Nearest. On a surface with a texture the render returns true, and its calls are the
  ones listed, the scale algorithm being the first uniform.
\<close>

theorem render_scale_refines_select:
  assumes "texture d \<noteq> None"
  shows "\<exists>d'. egl_desktopRender env d x y sx sy st rot rects = Some (True, d')
     \<and> calls d' = calls d @ [Call_textureProcess]
        @ (if tex_status env = EGL_TEX_STATUS_ERROR
           then [DEBUG_ERROR ''Failed to process the desktop texture''] else [])
        @ [Call_textureBind, Call_textureGetFinalSize,
           Call_desktopRectsMatrix (width d) (height d) x y sx sy rot,
           Call_desktopRectsUpdate rects (width d) (height d),
           Call_shaderSetUniforms SHADER_desktop
             (render_uniforms d
                (spec_select (scaleAlgo d) st src (finalSize env) (width d, height d))
                (finalSize env)),
           Call_shaderUse SHADER_desktop, Call_desktopRectsRender, Call_glBindTexture]
     \<and> u_value (hd (render_uniforms d
                (spec_select (scaleAlgo d) st src (finalSize env) (width d, height d))
                (finalSize env)))
         = U_i [spec_select (scaleAlgo d) st src (finalSize env) (width d, height d)]"
proof -
  from assms obtain t where t: "texture d = Some t" by auto
  have alg: "render_scaleAlgo d st (finalSize env)
      = spec_select (scaleAlgo d) st src (finalSize env) (width d, height d)"
    by (rule render_scaleAlgo_spec)
  show ?thesis
    using t
    by (cases "tex_status env")
      (simp_all add: egl_desktopRender_def with_texture_def emit_def Let_def alg [symmetric]
        render_uniforms_def render_scaleAlgo_def)
qed

theorem render_scale_refines_select_witness:
  "texture (calloc_EGL_Desktop\<lparr>texture := Some \<lparr>tex_type = EGL_TEXTYPE_FRAMEBUFFER, tex_filters = []\<rparr>,
      width := 1920, height := 1080\<rparr>) \<noteq> None
   \<and> (\<exists>d'. egl_desktopRender \<lparr>tex_status = EGL_TEX_STATUS_OK, finalSize = (3840, 2160)\<rparr>
         (calloc_EGL_Desktop\<lparr>texture := Some \<lparr>tex_type = EGL_TEXTYPE_FRAMEBUFFER, tex_filters = []\<rparr>,
            width := 1920, height := 1080\<rparr>) 0 0 1 1 EGL_DESKTOP_UPSCALE 0 [] = Some (True, d')
        \<and> (\<exists>us. Call_shaderSetUniforms SHADER_desktop us \<in> set (calls d')
              \<and> u_value (hd us) = U_i [EGL_SCALE_LINEAR]))"
  using render_scale_refines_select
    [where d = "calloc_EGL_Desktop\<lparr>texture := Some \<lparr>tex_type = EGL_TEXTYPE_FRAMEBUFFER, tex_filters = []\<rparr>,
       width := 1920, height := 1080\<rparr>"
     and env = "\<lparr>tex_status = EGL_TEX_STATUS_OK, finalSize = (3840, 2160)\<rparr>"
     and x = 0 and y = 0 and sx = 1 and sy = 1 and st = EGL_DESKTOP_UPSCALE and rot = 0
     and rects = "[]" and src = "(1920, 1080)"]
  by (auto simp add: calloc_EGL_Desktop_def spec_select_def EGL_SCALE_AUTO_def
      render_uniforms_def)

text \<open>
  C4. On a surface in the state the operations keep, a resize to \<open>(w, h)\<close> returns,
  and afterwards \<open>upscale\<close> is \<open>w > width \<and> h > height\<close> for the stored source
  size, each of the two FSR passes is active exactly when the user enabled FSR and the
  surface is upscaling, and the user's enable flags are the ones from before.
\<close>

theorem resize_derives_active:
  assumes "desktop_inv d"
  shows "\<exists>d'. egl_desktopResize d w h = Some d'
     \<and> upscale d' = (w > width d \<and> h > height d)
     \<and> activeNow d' (fst (ffxFSR1Handle d')) = (ffxFSR1Enable d' \<and> upscale d')
     \<and> activeNow d' (snd (ffxFSR1Handle d')) = (ffxFSR1Enable d' \<and> upscale d')
     \<and> ffxFSR1Enable d' = ffxFSR1Enable d
     \<and> ffxCASEnable d' = ffxCASEnable d
     \<and> desktop_inv d'"
  using assms by (rule resize_state)

theorem resize_derives_active_witness:
  "\<exists>d0 d1 d2 d3.
     egl_desktopInit
       \<lparr>calloc_ok = True, textureInit_ok = True, shaderInit_ok = True, shaderCompile_ok = True,
        desktopRectsInit_ok = True, countedBufferNew_ok = True, opt_egl_nvGainMax = 1,
        opt_egl_nvGain = 0, opt_egl_cbMode = 0, opt_egl_scale = 0, opt_eglFilter_ffxFSR = True,
        opt_eglFilter_ffxFSRSharpness = 1, opt_eglFilter_ffxCAS = False,
        opt_eglFilter_ffxCASSharpness = 0\<rparr> False 16 = Some (True, Some d0)
     \<and> desktop_inv d0
     \<and> egl_desktopSetup True d0
          \<lparr>f_type = FRAME_TYPE_BGRA, f_width = 1920, f_height = 1080, f_pitch = 7680\<rparr>
          = Some (True, d1)
     \<and> desktop_inv d1
     \<and> egl_desktopResize d1 3840 2160 = Some d2
     \<and> upscale d2 \<and> ffxFSR1Enable d2
     \<and> activeNow d2 (fst (ffxFSR1Handle d2)) \<and> activeNow d2 (snd (ffxFSR1Handle d2))
     \<and> desktop_inv d2
     \<and> egl_desktopResize d2 1920 1080 = Some d3
     \<and> \<not> upscale d3 \<and> ffxFSR1Enable d3
     \<and> \<not> activeNow d3 (fst (ffxFSR1Handle d3)) \<and> \<not> activeNow d3 (snd (ffxFSR1Handle d3))"
proof -
  let ?env = "\<lparr>calloc_ok = True, textureInit_ok = True, shaderInit_ok = True, shaderCompile_ok = True,
        desktopRectsInit_ok = True, countedBufferNew_ok = True, opt_egl_nvGainMax = 1,
        opt_egl_nvGain = 0, opt_egl_cbMode = 0, opt_egl_scale = 0, opt_eglFilter_ffxFSR = True,
        opt_eglFilter_ffxFSRSharpness = 1, opt_eglFilter_ffxCAS = False,
        opt_eglFilter_ffxCASSharpness = 0\<rparr>"
  let ?fmt = "\<lparr>f_type = FRAME_TYPE_BGRA, f_width = 1920, f_height = 1080, f_pitch = 7680\<rparr>"
  have "calloc_ok ?env" "textureInit_ok ?env" "shaderInit_ok ?env" "shaderCompile_ok ?env"
    "desktopRectsInit_ok ?env" "countedBufferNew_ok ?env" by simp_all
  from init_ok_state [OF this, of False 16]
  obtain d0 where i: "egl_desktopInit ?env False 16 = Some (True, Some d0)"
    and t0: "texture d0 \<noteq> None" and e0: "ffxFSR1Enable d0" by auto
  from i have v0: "desktop_inv d0" by (rule init_inv)
  from t0 obtain t where t: "texture d0 = Some t" by auto
  define d1 where "d1 = emit (Call_textureSetup EGL_PF_BGRA 1920 1080 7680)
      (d0\<lparr>format := ?fmt, width := 1920, height := 1080\<rparr>)"
  have s: "egl_desktopSetup True d0 ?fmt = Some (True, d1)"
    using t by (simp add: egl_desktopSetup_def with_texture_def d1_def)
  have v1: "desktop_inv d1" using v0 by (simp add: d1_def desktop_inv_upd)
  have w1: "width d1 = 1920" "height d1 = 1080" "ffxFSR1Enable d1"
    using e0 by (simp_all add: d1_def emit_def)
  from resize_derives_active [OF v1, of 3840 2160] w1
  obtain d2 where r2: "egl_desktopResize d1 3840 2160 = Some d2" and u2: "upscale d2"
    and a2: "activeNow d2 (fst (ffxFSR1Handle d2))" "activeNow d2 (snd (ffxFSR1Handle d2))"
    and e2: "ffxFSR1Enable d2" and v2: "desktop_inv d2" by auto
  have w2: "width d2 = 1920" "height d2 = 1080"
    using r2 w1 by (auto simp add: egl_desktopResize_def bind_eq_Some_conv elim!: enableE setResE)
  from resize_derives_active [OF v2, of 1920 1080] w2 e2
  obtain d3 where r3: "egl_desktopResize d2 1920 1080 = Some d3" and u3: "\<not> upscale d3"
    and a3: "\<not> activeNow d3 (fst (ffxFSR1Handle d3))" "\<not> activeNow d3 (snd (ffxFSR1Handle d3))"
    and e3: "ffxFSR1Enable d3" by auto
  from i v0 s v1 r2 u2 e2 a2 v2 r3 u3 e3 a3 show ?thesis by blast
qed

text \<open>
  C5. What the code does where the claim fails. \<^verbatim>\<open>setupFilters\<close> adds the FSR
  passes with the user's enable flag alone, without the \<open>upscale\<close> flag that the
  resize and the configuration panel apply. A surface constructed with FSR enabled has
  both passes active while it is not upscaling; a resize that is no upscale turns them
  off; the re-attachment of the transfer-path downgrade turns them on again.
\<close>

theorem fsr_active_without_upscale:
  "\<exists>d0 d1 d2 d3.
     egl_desktopInit
       \<lparr>calloc_ok = True, textureInit_ok = True, shaderInit_ok = True, shaderCompile_ok = True,
        desktopRectsInit_ok = True, countedBufferNew_ok = True, opt_egl_nvGainMax = 1,
        opt_egl_nvGain = 0, opt_egl_cbMode = 0, opt_egl_scale = 0, opt_eglFilter_ffxFSR = True,
        opt_eglFilter_ffxFSRSharpness = 1, opt_eglFilter_ffxCAS = False,
        opt_eglFilter_ffxCASSharpness = 0\<rparr> True 16 = Some (True, Some d0)
     \<and> \<not> upscale d0
     \<and> activeNow d0 (fst (ffxFSR1Handle d0)) \<and> activeNow d0 (snd (ffxFSR1Handle d0))
     \<and> egl_desktopSetup True d0
          \<lparr>f_type = FRAME_TYPE_BGRA, f_width = 1920, f_height = 1080, f_pitch = 7680\<rparr>
          = Some (True, d1)
     \<and> egl_desktopResize d1 1920 1080 = Some d2
     \<and> \<not> upscale d2
     \<and> \<not> activeNow d2 (fst (ffxFSR1Handle d2)) \<and> \<not> activeNow d2 (snd (ffxFSR1Handle d2))
     \<and> egl_desktopUpdate \<lparr>dma_ok = False, init_ok = True, setup_ok = True, frame_ok = True\<rparr>
          d2 7 3 [] 0 = Some (True, d3)
     \<and> \<not> upscale d3
     \<and> activeNow d3 (fst (ffxFSR1Handle d3)) \<and> activeNow d3 (snd (ffxFSR1Handle d3))"
proof -
  let ?env = "\<lparr>calloc_ok = True, textureInit_ok = True, shaderInit_ok = True, shaderCompile_ok = True,
        desktopRectsInit_ok = True, countedBufferNew_ok = True, opt_egl_nvGainMax = 1,
        opt_egl_nvGain = 0, opt_egl_cbMode = 0, opt_egl_scale = 0, opt_eglFilter_ffxFSR = True,
        opt_eglFilter_ffxFSRSharpness = 1, opt_eglFilter_ffxCAS = False,
        opt_eglFilter_ffxCASSharpness = 0\<rparr>"
  let ?fmt = "\<lparr>f_type = FRAME_TYPE_BGRA, f_width = 1920, f_height = 1080, f_pitch = 7680\<rparr>"
  let ?uenv = "\<lparr>dma_ok = False, init_ok = True, setup_ok = True, frame_ok = True\<rparr>"
  have "calloc_ok ?env" "textureInit_ok ?env" "shaderInit_ok ?env" "shaderCompile_ok ?env"
    "desktopRectsInit_ok ?env" "countedBufferNew_ok ?env" by simp_all
  from init_ok_state [OF this, of True 16]
  obtain d0 where i: "egl_desktopInit ?env True 16 = Some (True, Some d0)"
    and t0: "texture d0 \<noteq> None" and e0: "ffxFSR1Enable d0" and u0: "\<not> upscale d0"
    and a0: "activeNow d0 (fst (ffxFSR1Handle d0))" "activeNow d0 (snd (ffxFSR1Handle d0))"
    and m0: "useDMA d0"
    by (auto simp add: activeNow_def)
  from i have v0: "desktop_inv d0" by (rule init_inv)
  from t0 obtain t where t: "texture d0 = Some t" by auto
  define d1 where "d1 = emit (Call_textureSetup EGL_PF_BGRA 1920 1080 7680)
      (d0\<lparr>format := ?fmt, width := 1920, height := 1080\<rparr>)"
  have s: "egl_desktopSetup True d0 ?fmt = Some (True, d1)"
    using t by (simp add: egl_desktopSetup_def with_texture_def d1_def)
  have v1: "desktop_inv d1" using v0 by (simp add: d1_def desktop_inv_upd)
  have w1: "width d1 = 1920" "height d1 = 1080" "ffxFSR1Enable d1" "useDMA d1" "format d1 = ?fmt"
    using e0 m0 by (simp_all add: d1_def emit_def)
  from resize_state [OF v1, of 1920 1080] w1
  obtain d2 where r2: "egl_desktopResize d1 1920 1080 = Some d2" and u2: "\<not> upscale d2"
    and a2: "\<not> activeNow d2 (fst (ffxFSR1Handle d2))" "\<not> activeNow d2 (snd (ffxFSR1Handle d2))"
    and e2: "ffxFSR1Enable d2" and v2: "desktop_inv d2" by auto
  have w2: "useDMA d2" "format d2 = ?fmt"
    using r2 w1 by (auto simp add: egl_desktopResize_def bind_eq_Some_conv elim!: enableE setResE)
  from v2 have t2: "texture d2 \<noteq> None" using desktop_inv_texture by fastforce
  have h: "(0::int) \<le> 3" "\<not> dma_ok ?uenv" "init_ok ?uenv" by simp_all
  from update_downgrade_state [OF w2(1) h(1) t2 h(2), of 7 "[]" 0] w2 e2
  obtain d3 where r3: "egl_desktopUpdate ?uenv d2 7 3 [] 0 = Some (True, d3)"
    and t3: "texture d3 = Some \<lparr>tex_type = EGL_TEXTYPE_FRAMEBUFFER, tex_filters =
              [\<lparr>flt_shader = SHADER_ffxFSR1_0, flt_enabled = True, flt_res = None\<rparr>,
               \<lparr>flt_shader = SHADER_ffxFSR1_1, flt_enabled = True, flt_res = None\<rparr>,
               \<lparr>flt_shader = SHADER_ffxCAS, flt_enabled = ffxCASEnable d2, flt_res = None\<rparr>]\<rparr>"
    by auto
  from update_downgrade_handles [OF w2(1) h(1) t2 h(2) h(3), of 7 "[]" 0] r3 u2
  have h3: "ffxFSR1Handle d3 = (0, 1)" "\<not> upscale d3" by auto
  from t3 h3 have a3: "activeNow d3 (fst (ffxFSR1Handle d3))" "activeNow d3 (snd (ffxFSR1Handle d3))"
    by (simp_all add: activeNow_def)
  from i u0 a0 s r2 u2 a2 r3 h3(2) a3 show ?thesis by blast
qed

text \<open>
  C6. What the code does where the claim fails. The constructor stores the configured FSR
  sharpness in the uniform as it is and sends it so: for the raw value \<open>1/2\<close> the
  uniform is \<open>1/2\<close>, not \<open>2 - (1/2) * 2 = 1\<close>. The panel stores \<open>2 - r * 2\<close>
  (lemma \<open>fsr1_section\<close>); the CAS value is stored unmodified on both paths.
\<close>

theorem init_stores_raw_fsr_sharpness:
  "\<exists>d. egl_desktopInit
       \<lparr>calloc_ok = True, textureInit_ok = True, shaderInit_ok = True, shaderCompile_ok = True,
        desktopRectsInit_ok = True, countedBufferNew_ok = True, opt_egl_nvGainMax = 1,
        opt_egl_nvGain = 0, opt_egl_cbMode = 0, opt_egl_scale = 0, opt_eglFilter_ffxFSR = True,
        opt_eglFilter_ffxFSRSharpness = 1 / 2, opt_eglFilter_ffxCAS = False,
        opt_eglFilter_ffxCASSharpness = 1 / 4\<rparr> False 16 = Some (True, Some d)
     \<and> uniform_f0 (ffxFSR1Uniform d) = 1 / 2
     \<and> uniform_f0 (ffxFSR1Uniform d) \<noteq> 2 - (1 / 2) * 2
     \<and> uniform_f0 (ffxCASUniform d) = 1 / 4
     \<and> Call_shaderSetUniforms SHADER_ffxFSR1_1
          [\<lparr>u_type = EGL_UNIFORM_TYPE_1F, u_location = GL_LOC SHADER_ffxFSR1_1 ''uSharpness'',
            u_value = U_f [1 / 2]\<rparr>] \<in> set (calls d)"
  by (simp add: egl_desktopInit_def egl_textureInit_def egl_initDesktopShader_def
      calloc_EGL_Desktop_def setupFilters_def egl_textureAddFilter_def emit_def uniform_f0_def)

text \<open>
  C7. With a maximum of at least 0, \<open>n\<close> toggles from gain 0 leave the gain at
  \<open>n mod (max + 1)\<close>; one toggle takes a gain \<open>g\<close> between 0 and the maximum to
  \<open>(g + 1) mod (max + 1)\<close>; and every toggle ends with a request to redraw the window.
\<close>

theorem toggleNV_cyclic:
  assumes "0 \<le> sint (nvMax d)"
  shows "(nvGain d = 0 \<longrightarrow>
            sint (nvGain ((toggleNV key ^^ n) d)) = int n mod (sint (nvMax d) + 1))
     \<and> (0 \<le> sint (nvGain d) \<and> sint (nvGain d) \<le> sint (nvMax d) \<longrightarrow>
            sint (nvGain (toggleNV key d)) = (sint (nvGain d) + 1) mod (sint (nvMax d) + 1))
     \<and> (\<exists>a. calls (toggleNV key d) = calls d @ [a, Call_app_invalidateWindow True])"
  using assms toggleNV_funpow [where d = d and key = key and n = n]
    toggleNV_step [where d = d and key = key] toggleNV_calls [where d = d and key = key]
  by blast

theorem toggleNV_cyclic_witness:
  "0 \<le> sint (nvMax (calloc_EGL_Desktop\<lparr>nvMax := 2\<rparr>))
   \<and> nvGain (calloc_EGL_Desktop\<lparr>nvMax := 2\<rparr>) = 0
   \<and> sint (nvGain ((toggleNV 0 ^^ 5) (calloc_EGL_Desktop\<lparr>nvMax := 2\<rparr>))) = 2
   \<and> sint (nvGain (toggleNV 0 (calloc_EGL_Desktop\<lparr>nvMax := 2\<rparr>))) = 1"
  using toggleNV_cyclic [where d = "calloc_EGL_Desktop\<lparr>nvMax := 2\<rparr>" and key = 0 and n = 5]
  by (simp add: calloc_EGL_Desktop_def)

text \<open>
  C8. On a surface with its filters attached, a pass of the configuration panel returns;
  when the FSR sharpness slider hands back a value other than the stored one, FSR is
  enabled afterwards (whatever the flag and the checkbox were), and the pass ends with
  the invalidation of the texture and of the window; the same holds for the CAS slider
  and the CAS flag.
\<close>

theorem configUI_sharpness_enables:
  assumes "filters_attached d"
  shows "\<exists>d'. egl_desktopConfigUI ui d = Some d'
     \<and> (ui_fsr1Sharpness ui \<noteq> uniform_f0 (ffxFSR1Uniform d) \<longrightarrow>
          ffxFSR1Enable d'
          \<and> (\<exists>cs. calls d' = calls d @ cs @ [Call_textureInvalidate, Call_app_invalidateWindow True]))
     \<and> (ui_casSharpness ui \<noteq> uniform_f0 (ffxCASUniform d) \<longrightarrow>
          ffxCASEnable d'
          \<and> (\<exists>cs. calls d' = calls d @ cs @ [Call_textureInvalidate, Call_app_invalidateWindow True]))"
proof -
  define d1 where "d1 = (if ui_comboOpen ui
              then foldl (\<lambda>d i. if ui_selectable ui i then d\<lparr>scaleAlgo := i\<rparr> else d) d
                     [0 .. EGL_SCALE_MAX - 1]
              else d)\<lparr>nvGain := ui_nvgain ui\<rparr>"
  have "\<exists>a. d1 = d\<lparr>scaleAlgo := a, nvGain := ui_nvgain ui\<rparr>"
  proof (cases "ui_comboOpen ui")
    case True
    from combo_frame [of "ui_selectable ui" d "[0 .. EGL_SCALE_MAX - 1]"]
    obtain a where "foldl (\<lambda>d i. if ui_selectable ui i then d\<lparr>scaleAlgo := i\<rparr> else d) d
      [0 .. EGL_SCALE_MAX - 1] = d\<lparr>scaleAlgo := a\<rparr>" ..
    with True have "d1 = d\<lparr>scaleAlgo := a, nvGain := ui_nvgain ui\<rparr>"
      by (simp add: d1_def)
    then show ?thesis ..
  next
    case False
    then have "d1 = d\<lparr>scaleAlgo := scaleAlgo d, nvGain := ui_nvgain ui\<rparr>"
      by (simp add: d1_def)
    then show ?thesis ..
  qed
  then obtain a where d1: "d1 = d\<lparr>scaleAlgo := a, nvGain := ui_nvgain ui\<rparr>" ..
  have a1: "filters_attached d1" using assms by (auto simp add: d1 filters_attached_def split: option.splits)
  from fsr1_section [OF a1, of ui False] obtain d2 b2 where
    f: "configUI_fsr1 ui (d1, False) = Some (d2, b2)" and a2: "filters_attached d2"
    and f1: "ffxCASEnable d2 = ffxCASEnable d1" "ffxCASUniform d2 = ffxCASUniform d1"
    and f2: "ui_fsr1Sharpness ui \<noteq> uniform_f0 (ffxFSR1Uniform d1) \<longrightarrow> ffxFSR1Enable d2 \<and> b2"
    by blast
  from cas_section [OF a2, of ui b2] obtain d3 b3 where
    c: "configUI_cas ui (d2, b2) = Some (d3, b3)" and a3: "filters_attached d3"
    and c1: "ffxFSR1Enable d3 = ffxFSR1Enable d2" and c2: "b2 \<longrightarrow> b3"
    and c3: "ui_casSharpness ui \<noteq> uniform_f0 (ffxCASUniform d2) \<longrightarrow> ffxCASEnable d3 \<and> b3"
    by blast
  from a3 obtain t3 where t3: "texture d3 = Some t3"
    by (auto simp add: filters_attached_def split: option.splits)
  from fsr1_calls [OF f] obtain cs2 where cs2: "calls d2 = calls d1 @ cs2" ..
  from cas_calls [OF c] obtain cs3 where cs3: "calls d3 = calls d2 @ cs3" ..
  have cd: "calls d3 = calls d @ (cs2 @ cs3)" using cs2 cs3 by (simp add: d1)
  define d' where "d' = (if b3 then emit (Call_app_invalidateWindow True)
                           (emit Call_textureInvalidate d3) else d3)"
  have r: "egl_desktopConfigUI ui d = Some d'"
    using f c t3
    by (simp add: egl_desktopConfigUI_def Let_def d1_def [symmetric] d'_def with_texture_def)
  have inv: "b3 \<Longrightarrow> calls d' = calls d @ (cs2 @ cs3) @ [Call_textureInvalidate, Call_app_invalidateWindow True]"
    by (simp add: d'_def emit_def cd)
  have e1: "ffxFSR1Enable d' = ffxFSR1Enable d3" "ffxCASEnable d' = ffxCASEnable d3"
    by (simp_all add: d'_def emit_def)
  show ?thesis
    using r f2 c1 c2 c3 f1 e1 inv by (auto simp add: d1)
qed

theorem configUI_sharpness_enables_witness:
  "\<exists>d0 d'.
     egl_desktopInit
       \<lparr>calloc_ok = True, textureInit_ok = True, shaderInit_ok = True, shaderCompile_ok = True,
        desktopRectsInit_ok = True, countedBufferNew_ok = True, opt_egl_nvGainMax = 1,
        opt_egl_nvGain = 0, opt_egl_cbMode = 0, opt_egl_scale = 0, opt_eglFilter_ffxFSR = False,
        opt_eglFilter_ffxFSRSharpness = 1, opt_eglFilter_ffxCAS = False,
        opt_eglFilter_ffxCASSharpness = 0\<rparr> False 16 = Some (True, Some d0)
     \<and> filters_attached d0 \<and> \<not> ffxFSR1Enable d0 \<and> \<not> ffxCASEnable d0
     \<and> egl_desktopConfigUI
          \<lparr>ui_comboOpen = False, ui_selectable = (\<lambda>i. False), ui_nvgain = 0, ui_fsr1 = False,
           ui_fsr1Sharpness = 1 / 2, ui_cas = False, ui_casSharpness = 1 / 4\<rparr> d0 = Some d'
     \<and> ffxFSR1Enable d' \<and> ffxCASEnable d'
     \<and> (\<exists>cs. calls d' = calls d0 @ cs @ [Call_textureInvalidate, Call_app_invalidateWindow True])"
proof -
  let ?env = "\<lparr>calloc_ok = True, textureInit_ok = True, shaderInit_ok = True, shaderCompile_ok = True,
        desktopRectsInit_ok = True, countedBufferNew_ok = True, opt_egl_nvGainMax = 1,
        opt_egl_nvGain = 0, opt_egl_cbMode = 0, opt_egl_scale = 0, opt_eglFilter_ffxFSR = False,
        opt_eglFilter_ffxFSRSharpness = 1, opt_eglFilter_ffxCAS = False,
        opt_eglFilter_ffxCASSharpness = 0\<rparr>"
  let ?ui = "\<lparr>ui_comboOpen = False, ui_selectable = (\<lambda>i. False), ui_nvgain = 0, ui_fsr1 = False,
           ui_fsr1Sharpness = 1 / 2, ui_cas = False, ui_casSharpness = 1 / 4\<rparr>"
  have "calloc_ok ?env" "textureInit_ok ?env" "shaderInit_ok ?env" "shaderCompile_ok ?env"
    "desktopRectsInit_ok ?env" "countedBufferNew_ok ?env" by simp_all
  from init_ok_state [OF this, of False 16]
  obtain d0 where i: "egl_desktopInit ?env False 16 = Some (True, Some d0)"
    and a0: "filters_attached d0" and e0: "\<not> ffxFSR1Enable d0" "\<not> ffxCASEnable d0"
    and u0: "uniform_f0 (ffxFSR1Uniform d0) = 1" "uniform_f0 (ffxCASUniform d0) = 0"
    by (auto simp add: filters_attached_def)
  from configUI_sharpness_enables [OF a0, of ?ui] u0
  obtain d' where "egl_desktopConfigUI ?ui d0 = Some d'" "ffxFSR1Enable d'" "ffxCASEnable d'"
    "\<exists>cs. calls d' = calls d0 @ cs @ [Call_textureInvalidate, Call_app_invalidateWindow True]"
    by auto
  with i a0 e0 show ?thesis by blast
qed

text \<open>
  C9. The validator accepts the option exactly when its value is at least 0 and below
  \<open>EGL_SCALE_MAX\<close>; for every other value it returns false and sets the error message,
  and it never alters the value. A store that offers a value to the validator before
  keeping it therefore keeps an in-range value and, for an out-of-range one, retains the
  value it had and reports the message.
\<close>

theorem scale_validate_range:
  "egl_desktopScaleValidate opt err =
     (if 0 \<le> x_int opt \<and> x_int opt < EGL_SCALE_MAX then (True, err)
      else (False, Some ''Invalid scale algorithm number''))
   \<and> option_store_int egl_desktopScaleValidate opt v =
     (if 0 \<le> v \<and> v < EGL_SCALE_MAX then (opt\<lparr>x_int := v\<rparr>, None)
      else (opt, Some ''Invalid scale algorithm number''))"
  by (simp add: egl_desktopScaleValidate_def option_store_int_def)

theorem scale_validate_range_witness:
  "egl_desktopScaleValidate \<lparr>x_int = 99\<rparr> None = (False, Some ''Invalid scale algorithm number'')
   \<and> option_store_int egl_desktopScaleValidate \<lparr>x_int = EGL_SCALE_AUTO\<rparr> 99
       = (\<lparr>x_int = EGL_SCALE_AUTO\<rparr>, Some ''Invalid scale algorithm number'')"
  using scale_validate_range [of "\<lparr>x_int = 99\<rparr>" None]
    scale_validate_range [of "\<lparr>x_int = EGL_SCALE_AUTO\<rparr>" None 99]
  by (simp add: EGL_SCALE_MAX_def)

text \<open>
  C10. For a format whose type is none of the four supported ones,
  \<^verbatim>\<open>egl_desktopSetup\<close> returns false and leaves the stored width and height
  as they were, but the stored format is the rejected one. A later frame update whose
  zero-copy import fails re-runs the setup with that format: it frees the texture,
  creates the buffered one, attaches the filters, and returns false on the unsupported
  format without a texture setup or an ingestion.
\<close>

theorem setup_rejects_after_storing_format:
  assumes "f_type fmt \<notin> {FRAME_TYPE_BGRA, FRAME_TYPE_RGBA, FRAME_TYPE_RGBA10, FRAME_TYPE_RGBA16F}"
  shows "\<exists>d1. egl_desktopSetup ok d fmt = Some (False, d1)
     \<and> width d1 = width d \<and> height d1 = height d \<and> format d1 = fmt
     \<and> texture d1 = texture d \<and> useDMA d1 = useDMA d
     \<and> calls d1 = calls d @ [DEBUG_ERROR ''Unsupported frame format'']
     \<and> (useDMA d \<and> 0 \<le> dmaFd \<and> texture d \<noteq> None \<and> \<not> dma_ok env \<and> init_ok env \<longrightarrow>
          (\<exists>d2. egl_desktopUpdate env d1 frame dmaFd rects n = Some (False, d2)
             \<and> format d2 = fmt
             \<and> calls d2 = calls d1 @
                 [Call_textureUpdateFromDMA frame dmaFd,
                  DEBUG_WARN ''DMA update failed, disabling DMABUF imports'',
                  Call_textureFree,
                  Call_textureInit EGL_TEXTYPE_FRAMEBUFFER True,
                  Call_textureAddFilter SHADER_ffxFSR1_0 (ffxFSR1Enable d),
                  Call_textureAddFilter SHADER_ffxFSR1_1 (ffxFSR1Enable d),
                  Call_textureAddFilter SHADER_ffxCAS (ffxCASEnable d),
                  DEBUG_ERROR ''Unsupported frame format'']))"
proof -
  from assms have un: "pixFmt_of_type (f_type fmt) = None" by (cases "f_type fmt") simp_all
  define d1 where "d1 = emit (DEBUG_ERROR ''Unsupported frame format'') (d\<lparr>format := fmt\<rparr>)"
  have s: "egl_desktopSetup ok d fmt = Some (False, d1)"
    using un by (simp add: setup_unsupported d1_def)
  have f1: "width d1 = width d" "height d1 = height d" "format d1 = fmt" "texture d1 = texture d"
    "useDMA d1 = useDMA d" "calls d1 = calls d @ [DEBUG_ERROR ''Unsupported frame format'']"
    "ffxFSR1Enable d1 = ffxFSR1Enable d" "ffxCASEnable d1 = ffxCASEnable d"
    by (simp_all add: d1_def emit_def)
  have "\<exists>d2. egl_desktopUpdate env d1 frame dmaFd rects n = Some (False, d2)
             \<and> format d2 = fmt
             \<and> calls d2 = calls d1 @
                 [Call_textureUpdateFromDMA frame dmaFd,
                  DEBUG_WARN ''DMA update failed, disabling DMABUF imports'',
                  Call_textureFree,
                  Call_textureInit EGL_TEXTYPE_FRAMEBUFFER True,
                  Call_textureAddFilter SHADER_ffxFSR1_0 (ffxFSR1Enable d),
                  Call_textureAddFilter SHADER_ffxFSR1_1 (ffxFSR1Enable d),
                  Call_textureAddFilter SHADER_ffxCAS (ffxCASEnable d),
                  DEBUG_ERROR ''Unsupported frame format'']"
    if h: "useDMA d" "0 \<le> dmaFd" "texture d \<noteq> None" "\<not> dma_ok env" "init_ok env"
  proof -
    have "useDMA d1" "texture d1 \<noteq> None" using h f1 by simp_all
    from update_downgrade_state [OF this(1) h(2) this(2) h(4), of frame rects n]
    show ?thesis using h(5) un f1 by auto
  qed
  with s f1 show ?thesis by blast
qed

theorem setup_rejects_after_storing_format_witness:
  "f_type \<lparr>f_type = FRAME_TYPE_OTHER 0, f_width = 800, f_height = 600, f_pitch = 3200\<rparr>
     \<notin> {FRAME_TYPE_BGRA, FRAME_TYPE_RGBA, FRAME_TYPE_RGBA10, FRAME_TYPE_RGBA16F}
   \<and> (\<exists>d1. egl_desktopSetup True
         (calloc_EGL_Desktop\<lparr>texture := Some \<lparr>tex_type = EGL_TEXTYPE_DMABUF, tex_filters = []\<rparr>,
            useDMA := True, width := 1920, height := 1080,
            format := \<lparr>f_type = FRAME_TYPE_BGRA, f_width = 1920, f_height = 1080, f_pitch = 7680\<rparr>\<rparr>)
         \<lparr>f_type = FRAME_TYPE_OTHER 0, f_width = 800, f_height = 600, f_pitch = 3200\<rparr>
         = Some (False, d1)
       \<and> width d1 = 1920 \<and> height d1 = 1080
       \<and> format d1 = \<lparr>f_type = FRAME_TYPE_OTHER 0, f_width = 800, f_height = 600, f_pitch = 3200\<rparr>
       \<and> (\<exists>d2. egl_desktopUpdate
               \<lparr>dma_ok = False, init_ok = True, setup_ok = True, frame_ok = True\<rparr> d1 7 3 [] 0
               = Some (False, d2)
            \<and> format d2 = \<lparr>f_type = FRAME_TYPE_OTHER 0, f_width = 800, f_height = 600, f_pitch = 3200\<rparr>))"
  using setup_rejects_after_storing_format
    [where fmt = "\<lparr>f_type = FRAME_TYPE_OTHER 0, f_width = 800, f_height = 600, f_pitch = 3200\<rparr>"
     and d = "calloc_EGL_Desktop\<lparr>texture := Some \<lparr>tex_type = EGL_TEXTYPE_DMABUF, tex_filters = []\<rparr>,
            useDMA := True, width := 1920, height := 1080,
            format := \<lparr>f_type = FRAME_TYPE_BGRA, f_width = 1920, f_height = 1080, f_pitch = 7680\<rparr>\<rparr>"
     and ok = True and dmaFd = 3 and frame = 7 and rects = "[]" and n = 0
     and env = "\<lparr>dma_ok = False, init_ok = True, setup_ok = True, frame_ok = True\<rparr>"]
  by (auto simp add: calloc_EGL_Desktop_def)

end
